theory Spec2Isabelle
  imports Main "HOL-Library.Word"
begin

unbundle bit_operations_syntax

section \<open>asmcovtrace: the ptrace interface of asmcov\<close>

text \<open>
  The C file \<^verbatim>\<open>asmcovtrace.c\<close> has two functions, \<^verbatim>\<open>asmcovtrace_open\<close> and
  \<^verbatim>\<open>asmcovtrace_next\<close>. Both are straight-line code around system calls, so the
  embedding makes three things explicit:
  \<^item> the operating system, as a record of handlers over a kernel state \<open>'k\<close>: a handler
    takes the kernel state and gives the call's answer and the next kernel state. The
    theorems below hold for every such record unless they name a particular one;
  \<^item> the calling process, as a record of \<^verbatim>\<open>errno\<close>, the list of the calls made so far
    in order (with them the store the code makes to \<^verbatim>\<open>errno\<close>), and the kernel state;
  \<^item> the ways a function can end: it returns a value, the process exits through
    \<^verbatim>\<open>err\<close>, the process image is replaced by \<^verbatim>\<open>execve\<close>, or a blocking call never
    answers.
\<close>

subsection \<open>C types and platform constants\<close>

type_synonym pid_t = int
type_synonym c_int = "32 word"
type_synonym c_ulonglong = "64 word"

text \<open>
  \<^verbatim>\<open>struct user_regs_struct\<close> of \<^verbatim>\<open><sys/user.h>\<close> (x86-64). The code reads the field
  \<^verbatim>\<open>rip\<close> only, so the other registers are left out.
\<close>

record user_regs_struct =
  rip :: c_ulonglong

text \<open>Error numbers of \<^verbatim>\<open><errno.h>\<close> on Linux.\<close>

definition EPERM :: int where "EPERM = 1"
definition ENOENT :: int where "ENOENT = 2"
definition ESRCH :: int where "ESRCH = 3"
definition ECHILD :: int where "ECHILD = 10"
definition EAGAIN :: int where "EAGAIN = 11"

text \<open>
  The status macros of \<^verbatim>\<open><sys/wait.h>\<close> (glibc):
  \<^verbatim>\<open>WIFEXITED(s)\<close> is \<^verbatim>\<open>((s) & 0x7f) == 0\<close> and
  \<^verbatim>\<open>WEXITSTATUS(s)\<close> is \<^verbatim>\<open>((s) & 0xff00) >> 8\<close>.
  \<open>W_EXITCODE\<close> and \<open>W_STOPCODE\<close> are the encodings the kernel uses for a process that
  exited with an 8-bit code and for a process stopped by a signal.
\<close>

definition WIFEXITED :: "c_int \<Rightarrow> bool" where
  "WIFEXITED status = (status AND 0x7f = 0)"

definition WEXITSTATUS :: "c_int \<Rightarrow> c_int" where
  "WEXITSTATUS status = drop_bit 8 (status AND 0xff00)"

definition W_EXITCODE :: "8 word \<Rightarrow> c_int" where
  "W_EXITCODE ret = push_bit 8 (ucast ret)"

definition W_STOPCODE :: "c_int \<Rightarrow> c_int" where
  "W_STOPCODE sig = push_bit 8 sig OR 0x7f"

definition SIGTRAP :: c_int where "SIGTRAP = 5"
definition SIGKILL :: c_int where "SIGKILL = 9"

subsection \<open>The operating system as seen by the code\<close>

datatype 'a sysret = Failed int | Succeeded 'a

datatype fork_answer = ForkFailed int | ForkChild | ForkParent pid_t

datatype wait_answer = WaitReturns pid_t c_int | WaitFails int | WaitBlocks

text \<open>The calls \<^verbatim>\<open>asmcovtrace_open\<close> makes.\<close>

record 'k spawn_calls =
  os_fork :: "'k \<Rightarrow> fork_answer \<times> 'k"
  os_traceme :: "'k \<Rightarrow> unit sysret \<times> 'k"
  os_execve :: "string \<Rightarrow> string list \<Rightarrow> 'k \<Rightarrow> unit sysret \<times> 'k"

text \<open>The calls \<^verbatim>\<open>asmcovtrace_next\<close> makes.\<close>

record 'k trace_calls =
  os_wait :: "'k \<Rightarrow> wait_answer \<times> 'k"
  os_getregs :: "pid_t \<Rightarrow> 'k \<Rightarrow> user_regs_struct sysret \<times> 'k"
  os_singlestep :: "pid_t \<Rightarrow> 'k \<Rightarrow> unit sysret \<times> 'k"

text \<open>
  What fork(2) promises the parent: the process identifier of the child, a positive
  number.
\<close>

definition fork_contract :: "fork_answer \<Rightarrow> bool" where
  "fork_contract a = (case a of ForkParent p \<Rightarrow> 0 < p | _ \<Rightarrow> True)"

subsection \<open>The calling process\<close>

datatype ptrace_request = PTRACE_TRACEME | PTRACE_GETREGS | PTRACE_SINGLESTEP

datatype fmt_arg = ArgStr string | ArgInt int

datatype call =
    SysFork
  | SysPtrace ptrace_request pid_t
  | SysExecve string "string list"
  | SysWait
  | StoreErrno int
  | LibErr int string "fmt_arg list"

record 'k proc =
  errno :: int
  calls :: "call list"
  kern :: 'k

text \<open>
  What \<^verbatim>\<open>err(eval, fmt, ...)\<close> writes to standard error: the formatted message, then
  the text of the \<^verbatim>\<open>errno\<close> current at the call.
\<close>

record diagnostic =
  d_fmt :: string
  d_args :: "fmt_arg list"
  d_errno :: int

datatype 'a outcome =
    Return 'a
  | Exits int diagnostic
  | Replaced string "string list"
  | Hangs

definition did :: "call \<Rightarrow> 'k proc \<Rightarrow> 'k proc" where
  "did c s = s\<lparr>calls := calls s @ [c]\<rparr>"

text \<open>
  The library calls. Each one logs itself, lets the kernel answer, and on failure stores
  the error number in \<^verbatim>\<open>errno\<close> and returns \<open>-1\<close>; a call that succeeds leaves
  \<^verbatim>\<open>errno\<close> as it was.
\<close>

definition fork :: "'k spawn_calls \<Rightarrow> 'k proc \<Rightarrow> pid_t \<times> 'k proc" where
  "fork K s =
     (case os_fork K (kern s) of (a, k') \<Rightarrow>
        let s' = (did SysFork s)\<lparr>kern := k'\<rparr> in
        (case a of
           ForkFailed e \<Rightarrow> (- 1, s'\<lparr>errno := e\<rparr>)
         | ForkChild \<Rightarrow> (0, s')
         | ForkParent p \<Rightarrow> (p, s')))"

definition ptrace_traceme :: "'k spawn_calls \<Rightarrow> 'k proc \<Rightarrow> int \<times> 'k proc" where
  "ptrace_traceme K s =
     (case os_traceme K (kern s) of (a, k') \<Rightarrow>
        let s' = (did (SysPtrace PTRACE_TRACEME 0) s)\<lparr>kern := k'\<rparr> in
        (case a of
           Failed e \<Rightarrow> (- 1, s'\<lparr>errno := e\<rparr>)
         | Succeeded _ \<Rightarrow> (0, s')))"

text \<open>\<^verbatim>\<open>execve\<close> returns only when it fails: \<open>None\<close> is the replaced image.\<close>

definition execve :: "'k spawn_calls \<Rightarrow> string \<Rightarrow> string list \<Rightarrow> 'k proc \<Rightarrow> int option \<times> 'k proc" where
  "execve K path argv s =
     (case os_execve K path argv (kern s) of (a, k') \<Rightarrow>
        let s' = (did (SysExecve path argv) s)\<lparr>kern := k'\<rparr> in
        (case a of
           Failed e \<Rightarrow> (Some (- 1), s'\<lparr>errno := e\<rparr>)
         | Succeeded _ \<Rightarrow> (None, s')))"

text \<open>
  \<^verbatim>\<open>wait(&status)\<close>: the second argument is what \<^verbatim>\<open>status\<close> holds before the call;
  the result is the return value with what \<^verbatim>\<open>status\<close> holds after it, or \<open>None\<close> when
  the call blocks for ever. A failed \<^verbatim>\<open>wait\<close> does not write \<^verbatim>\<open>status\<close>.
\<close>

definition wait :: "'k trace_calls \<Rightarrow> c_int \<Rightarrow> 'k proc \<Rightarrow> (pid_t \<times> c_int) option \<times> 'k proc" where
  "wait K status s =
     (case os_wait K (kern s) of (a, k') \<Rightarrow>
        let s' = (did SysWait s)\<lparr>kern := k'\<rparr> in
        (case a of
           WaitReturns p st \<Rightarrow> (Some (p, st), s')
         | WaitFails e \<Rightarrow> (Some (- 1, status), s'\<lparr>errno := e\<rparr>)
         | WaitBlocks \<Rightarrow> (None, s')))"

text \<open>
  \<^verbatim>\<open>ptrace(PTRACE_GETREGS, pid, NULL, &regs)\<close>: the third argument is what \<^verbatim>\<open>regs\<close>
  holds before the call, the result carries what it holds after it.
\<close>

definition ptrace_getregs ::
  "'k trace_calls \<Rightarrow> pid_t \<Rightarrow> user_regs_struct \<Rightarrow> 'k proc \<Rightarrow> (int \<times> user_regs_struct) \<times> 'k proc" where
  "ptrace_getregs K pid regs s =
     (case os_getregs K pid (kern s) of (a, k') \<Rightarrow>
        let s' = (did (SysPtrace PTRACE_GETREGS pid) s)\<lparr>kern := k'\<rparr> in
        (case a of
           Failed e \<Rightarrow> ((- 1, regs), s'\<lparr>errno := e\<rparr>)
         | Succeeded r \<Rightarrow> ((0, r), s')))"

definition ptrace_singlestep :: "'k trace_calls \<Rightarrow> pid_t \<Rightarrow> 'k proc \<Rightarrow> int \<times> 'k proc" where
  "ptrace_singlestep K pid s =
     (case os_singlestep K pid (kern s) of (a, k') \<Rightarrow>
        let s' = (did (SysPtrace PTRACE_SINGLESTEP pid) s)\<lparr>kern := k'\<rparr> in
        (case a of
           Failed e \<Rightarrow> (- 1, s'\<lparr>errno := e\<rparr>)
         | Succeeded _ \<Rightarrow> (0, s')))"

definition err :: "int \<Rightarrow> string \<Rightarrow> fmt_arg list \<Rightarrow> 'k proc \<Rightarrow> 'a outcome \<times> 'k proc" where
  "err eval fmt args s =
     (Exits eval \<lparr>d_fmt = fmt, d_args = args, d_errno = errno s\<rparr>, did (LibErr eval fmt args) s)"

subsection \<open>The two functions of the source\<close>

text \<open>
  \<^verbatim>\<open>
  pid_t asmcovtrace_open(const char *const path, char *const argv[]){
      pid_t pid;

      pid = fork();
      if(pid == -1){
          err(1, "fork");
      }
      else if(pid == 0){
          if(ptrace(PTRACE_TRACEME, 0, NULL, NULL) == -1){
              err(1, "ptrace");
          }
          execve(path, argv, NULL);
          err(1, "exec: %s", path);
      }
      return pid;
  }
  \<close>
  After the \<^verbatim>\<open>fork\<close> two processes run this code. The model follows one of them; the
  answer of \<^verbatim>\<open>fork\<close> says which.
\<close>

definition asmcovtrace_open ::
  "'k spawn_calls \<Rightarrow> string \<Rightarrow> string list \<Rightarrow> 'k proc \<Rightarrow> pid_t outcome \<times> 'k proc" where
  "asmcovtrace_open K path argv s =
     (case fork K s of (pid, s1) \<Rightarrow>
        if pid = - 1 then err 1 ''fork'' [] s1
        else if pid = 0 then
          (case ptrace_traceme K s1 of (r, s2) \<Rightarrow>
             if r = - 1 then err 1 ''ptrace'' [] s2
             else
               (case execve K path argv s2 of
                  (None, s3) \<Rightarrow> (Replaced path argv, s3)
                | (Some _, s3) \<Rightarrow> err 1 ''exec: %s'' [ArgStr path] s3))
        else (Return pid, s1))"

text \<open>
  \<^verbatim>\<open>
  unsigned long long asmcovtrace_next(const pid_t pid){
      struct user_regs_struct regs;
      int status;

      wait(&status);
      if(WIFEXITED(status)){
          return WEXITSTATUS(status);
      }
      errno = 0;
      if(ptrace(PTRACE_GETREGS, pid, NULL, &regs) == -1 ||
         ptrace(PTRACE_SINGLESTEP, pid, NULL, NULL) == -1){
          if(errno == ESRCH){
              return 0;
          }
          err(1, "ptrace: %d", errno);
      }
      return regs.rip;
  }
  \<close>
  The locals \<^verbatim>\<open>regs\<close> and \<^verbatim>\<open>status\<close> are not initialised: what they hold at entry is
  an argument of the model. The value \<^verbatim>\<open>wait\<close> returns is not looked at. The pair
  \<open>(failed, s5)\<close> is the value of the condition with its \<^verbatim>\<open>||\<close>: the second request is
  made only when the first did not return \<open>-1\<close>.
\<close>

record next_frame =
  regs :: user_regs_struct
  status :: c_int

definition asmcovtrace_next ::
  "'k trace_calls \<Rightarrow> pid_t \<Rightarrow> next_frame \<Rightarrow> 'k proc \<Rightarrow> c_ulonglong outcome \<times> 'k proc" where
  "asmcovtrace_next K pid fr s =
     (case wait K (status fr) s of
        (None, s1) \<Rightarrow> (Hangs, s1)
      | (Some (_, st), s1) \<Rightarrow>
          if WIFEXITED st then (Return (scast (WEXITSTATUS st)), s1)
          else
            let s2 = (did (StoreErrno 0) s1)\<lparr>errno := 0\<rparr> in
            (case ptrace_getregs K pid (regs fr) s2 of ((r1, rg), s3) \<Rightarrow>
               (case (if r1 = - 1 then (True, s3)
                      else (case ptrace_singlestep K pid s3 of (r2, s4) \<Rightarrow> (r2 = - 1, s4)))
                of (failed, s5) \<Rightarrow>
                  if failed then
                    (if errno s5 = ESRCH then (Return 0, s5)
                     else err 1 ''ptrace: %d'' [ArgInt (errno s5)] s5)
                  else (Return (rip rg), s5))))"

subsection \<open>Two concrete kernels\<close>

text \<open>
  A kernel that answers as scripted: each of the two functions makes each of its calls at
  most once, so three fixed answers describe every single call of
  \<^verbatim>\<open>asmcovtrace_open\<close> and three describe every single call of
  \<^verbatim>\<open>asmcovtrace_next\<close>.
\<close>

definition scripted_spawn ::
  "fork_answer \<Rightarrow> unit sysret \<Rightarrow> unit sysret \<Rightarrow> unit spawn_calls" where
  "scripted_spawn fa ta ea =
     \<lparr>os_fork = (\<lambda>k. (fa, k)),
      os_traceme = (\<lambda>k. (ta, k)),
      os_execve = (\<lambda>path argv k. (ea, k))\<rparr>"

definition scripted_trace ::
  "wait_answer \<Rightarrow> user_regs_struct sysret \<Rightarrow> unit sysret \<Rightarrow> unit trace_calls" where
  "scripted_trace wa ga sa =
     \<lparr>os_wait = (\<lambda>k. (wa, k)),
      os_getregs = (\<lambda>pid k. (ga, k)),
      os_singlestep = (\<lambda>pid k. (sa, k))\<rparr>"

text \<open>
  A kernel with one traced child, after ptrace(2) and wait(2). The child is described by
  the addresses at which it will stop from now on and by the way it ends. It is
  \<^item> \<open>Resumed as e\<close>: running, with a state change pending: a stop before the
    instruction at the head of \<open>as\<close>, or its end \<open>e\<close> when \<open>as\<close> is empty;
  \<^item> \<open>Stopped a as e\<close>: in a trace stop before the instruction at \<open>a\<close>, the stop
    already reported by \<^verbatim>\<open>wait\<close>;
  \<^item> \<open>Reaped\<close>: ended, and the end already reported by \<^verbatim>\<open>wait\<close>.
  \<^verbatim>\<open>wait\<close> reports the pending change, blocks when the only child is stopped with
  nothing pending, and fails with \<^verbatim>\<open>ECHILD\<close> when no child is left. The ptrace requests
  work on the stopped child and fail with \<^verbatim>\<open>ESRCH\<close> otherwise.
\<close>

datatype ending = ExitsWith "8 word" | Killed

datatype tracee =
    Resumed "c_ulonglong list" ending
  | Stopped c_ulonglong "c_ulonglong list" ending
  | Reaped

record kernel =
  child :: pid_t
  tracee :: tracee

definition linux_wait :: "kernel \<Rightarrow> wait_answer \<times> kernel" where
  "linux_wait k =
     (case tracee k of
        Resumed [] (ExitsWith c) \<Rightarrow> (WaitReturns (child k) (W_EXITCODE c), k\<lparr>tracee := Reaped\<rparr>)
      | Resumed [] Killed \<Rightarrow> (WaitReturns (child k) SIGKILL, k\<lparr>tracee := Reaped\<rparr>)
      | Resumed (a # rest) e \<Rightarrow>
          (WaitReturns (child k) (W_STOPCODE SIGTRAP), k\<lparr>tracee := Stopped a rest e\<rparr>)
      | Stopped a rest e \<Rightarrow> (WaitBlocks, k)
      | Reaped \<Rightarrow> (WaitFails ECHILD, k))"

definition linux_getregs :: "pid_t \<Rightarrow> kernel \<Rightarrow> user_regs_struct sysret \<times> kernel" where
  "linux_getregs pid k =
     (case tracee k of
        Stopped a rest e \<Rightarrow>
          if pid = child k then (Succeeded \<lparr>rip = a\<rparr>, k) else (Failed ESRCH, k)
      | _ \<Rightarrow> (Failed ESRCH, k))"

definition linux_singlestep :: "pid_t \<Rightarrow> kernel \<Rightarrow> unit sysret \<times> kernel" where
  "linux_singlestep pid k =
     (case tracee k of
        Stopped a rest e \<Rightarrow>
          if pid = child k then (Succeeded (), k\<lparr>tracee := Resumed rest e\<rparr>)
          else (Failed ESRCH, k)
      | _ \<Rightarrow> (Failed ESRCH, k))"

definition linux :: "kernel trace_calls" where
  "linux = \<lparr>os_wait = linux_wait, os_getregs = linux_getregs, os_singlestep = linux_singlestep\<rparr>"

section \<open>Facts about the status macros\<close>

lemma c7f: "(0x7f :: 32 word) = mask 7"
  by (simp add: mask_eq_exp_minus_1)

lemma cff00: "(0xff00 :: 32 word) = push_bit 8 (mask 8)"
  by (simp add: mask_eq_exp_minus_1 push_bit_eq_mult)

lemma WIFEXITED_W_EXITCODE: "WIFEXITED (W_EXITCODE c)"
  unfolding WIFEXITED_def W_EXITCODE_def c7f
  by (rule bit_word_eqI) (auto simp: bit_simps)

lemma WEXITSTATUS_W_EXITCODE: "WEXITSTATUS (W_EXITCODE c) = ucast c"
  unfolding WEXITSTATUS_def W_EXITCODE_def cff00
  by (rule bit_word_eqI) (auto simp: bit_simps dest: bit_imp_le_length)

lemma not_WIFEXITED_W_STOPCODE: "\<not> WIFEXITED (W_STOPCODE sig)"
proof
  assume "WIFEXITED (W_STOPCODE sig)"
  then have "bit ((push_bit 8 sig OR mask 7) AND (mask 7 :: 32 word)) 0 = bit (0 :: 32 word) 0"
    unfolding WIFEXITED_def W_STOPCODE_def c7f by simp
  then show False by (simp add: bit_simps)
qed

lemma not_WIFEXITED_SIGKILL: "\<not> WIFEXITED SIGKILL"
  by (simp add: WIFEXITED_def SIGKILL_def)

lemma WEXITSTATUS_eq: "WEXITSTATUS st = take_bit 8 (drop_bit 8 st)"
  unfolding WEXITSTATUS_def cff00
  by (rule bit_word_eqI) (auto simp: bit_simps)

lemma WEXITSTATUS_le: "WEXITSTATUS st \<le> 255"
proof -
  have "take_bit 8 (drop_bit 8 st) \<le> (mask 8 :: 32 word)"
    by (simp add: take_bit_eq_mask word_and_le1)
  then show ?thesis by (simp add: WEXITSTATUS_eq mask_eq_exp_minus_1)
qed

text \<open>
  The conversion of the \<^verbatim>\<open>int\<close> value of \<^verbatim>\<open>WEXITSTATUS\<close> to the
  \<^verbatim>\<open>unsigned long long\<close> result extends the sign, which is never set.
\<close>

lemma scast_WEXITSTATUS: "(scast (WEXITSTATUS st) :: 64 word) = ucast (WEXITSTATUS st)"
  unfolding WEXITSTATUS_eq
  by (rule bit_word_eqI) (auto simp: bit_simps)

lemma unat_ucast_32_64: "unat (ucast (w :: 32 word) :: 64 word) = unat w"
proof -
  have "unat w < 2 ^ 32" using unsigned_less [of w] by simp
  then have "unat w < 2 ^ 64" by simp
  then show ?thesis by (simp add: unsigned_ucast_eq take_bit_nat_eq_self)
qed

lemma WEXITSTATUS_ull_le: "unat (scast (WEXITSTATUS st) :: 64 word) \<le> 255"
proof -
  have "unat (WEXITSTATUS st) \<le> unat (255 :: 32 word)"
    using WEXITSTATUS_le [of st] by (simp only: word_le_nat_alt)
  then show ?thesis by (simp add: scast_WEXITSTATUS unat_ucast_32_64)
qed

lemma scast_exit: "(scast (WEXITSTATUS (W_EXITCODE c)) :: 64 word) = ucast c"
proof -
  have "bit (scast (ucast c :: 32 word) :: 64 word) n = bit (ucast c :: 64 word) n" for n
  proof (cases "n < 8")
    case True
    then show ?thesis by (simp add: bit_simps)
  next
    case False
    then have "\<not> bit c n" "\<not> bit c (min 31 n)"
      by (auto dest: bit_imp_le_length)
    then show ?thesis by (simp add: bit_simps)
  qed
  then show ?thesis
    unfolding WEXITSTATUS_W_EXITCODE by (simp add: bit_eq_iff)
qed

lemma ucast8_le: "unat (ucast (c :: 8 word) :: 64 word) \<le> 255"
proof -
  have "unat c < 2 ^ 8" using unsigned_less [of c] by simp
  then show ?thesis by (simp add: unsigned_ucast_eq take_bit_nat_eq_self)
qed

section \<open>The paths through \<^verbatim>\<open>asmcovtrace_next\<close>\<close>

lemmas traced_defs =
  asmcovtrace_next_def ptrace_getregs_def ptrace_singlestep_def err_def did_def

lemmas next_defs = wait_def traced_defs

lemmas open_defs =
  asmcovtrace_open_def fork_def ptrace_traceme_def execve_def err_def did_def

lemmas linux_defs = linux_def linux_wait_def linux_getregs_def linux_singlestep_def

text \<open>
  What \<^verbatim>\<open>wait\<close> does to the process: it adds itself to the calls, and it may change
  \<^verbatim>\<open>errno\<close> and the kernel.
\<close>

lemma wait_frame:
  assumes "wait K st0 s = (r, s1)"
  shows "s1 = s\<lparr>errno := errno s1, calls := calls s @ [SysWait], kern := kern s1\<rparr>"
proof -
  obtain a k1 where w: "os_wait K (kern s) = (a, k1)" by (cases "os_wait K (kern s)")
  show ?thesis
    using assms w by (cases a) (auto simp: wait_def did_def)
qed

lemma wait_calls:
  assumes "wait K st0 s = (r, s1)"
  shows "calls s1 = calls s @ [SysWait]"
proof -
  have "calls s1 = calls (s\<lparr>errno := errno s1, calls := calls s @ [SysWait], kern := kern s1\<rparr>)"
    using wait_frame [OF assms] by simp
  then show ?thesis by simp
qed

lemma wait_kern:
  assumes "wait K st0 s = (r, s1)"
  shows "kern s1 = snd (os_wait K (kern s))"
proof -
  obtain a k1 where w: "os_wait K (kern s) = (a, k1)" by (cases "os_wait K (kern s)")
  show ?thesis
    using assms w by (cases a) (auto simp: wait_def did_def)
qed

lemma wait_returns:
  assumes "os_wait K (kern s) = (WaitReturns p st, k1)"
  shows "wait K st0 s = (Some (p, st), s\<lparr>calls := calls s @ [SysWait], kern := k1\<rparr>)"
  using assms by (simp add: wait_def did_def)

lemma wait_fails:
  assumes "os_wait K (kern s) = (WaitFails e, k1)"
  shows "wait K st0 s =
           (Some (- 1, st0), s\<lparr>errno := e, calls := calls s @ [SysWait], kern := k1\<rparr>)"
  using assms by (simp add: wait_def did_def)

text \<open>
  The four ways through the function once \<^verbatim>\<open>wait\<close> has returned, leaving \<open>st\<close> in
  \<^verbatim>\<open>status\<close> and the process in \<open>s1\<close>.
\<close>

lemma next_exit_path:
  assumes "wait K (status fr) s = (Some (rv, st), s1)" and "WIFEXITED st"
  shows "asmcovtrace_next K pid fr s = (Return (scast (WEXITSTATUS st)), s1)"
  using assms by (simp add: asmcovtrace_next_def)

lemma next_step_path:
  assumes "wait K (status fr) s = (Some (rv, st), s1)" and "\<not> WIFEXITED st"
    and "os_getregs K pid (kern s1) = (Succeeded r, k2)"
    and "os_singlestep K pid k2 = (Succeeded u, k3)"
  shows "asmcovtrace_next K pid fr s =
           (Return (rip r),
            s\<lparr>errno := 0,
              calls := calls s @ [SysWait, StoreErrno 0, SysPtrace PTRACE_GETREGS pid,
                                  SysPtrace PTRACE_SINGLESTEP pid],
              kern := k3\<rparr>)"
proof -
  from wait_frame [OF assms(1)]
  obtain e k where s1: "s1 = s\<lparr>errno := e, calls := calls s @ [SysWait], kern := k\<rparr>"
    by blast
  show ?thesis
    using assms unfolding s1 by (simp add: traced_defs)
qed

lemma next_getregs_fails:
  assumes "wait K (status fr) s = (Some (rv, st), s1)" and "\<not> WIFEXITED st"
    and "os_getregs K pid (kern s1) = (Failed e, k2)"
  shows "asmcovtrace_next K pid fr s =
           (if e = ESRCH then Return 0
            else Exits 1 \<lparr>d_fmt = ''ptrace: %d'', d_args = [ArgInt e], d_errno = e\<rparr>,
            s\<lparr>errno := e,
              calls := calls s @ [SysWait, StoreErrno 0, SysPtrace PTRACE_GETREGS pid] @
                       (if e = ESRCH then [] else [LibErr 1 ''ptrace: %d'' [ArgInt e]]),
              kern := k2\<rparr>)"
proof -
  from wait_frame [OF assms(1)]
  obtain e' k where s1: "s1 = s\<lparr>errno := e', calls := calls s @ [SysWait], kern := k\<rparr>"
    by blast
  show ?thesis
    using assms unfolding s1 by (simp add: traced_defs)
qed

lemma next_singlestep_fails:
  assumes "wait K (status fr) s = (Some (rv, st), s1)" and "\<not> WIFEXITED st"
    and "os_getregs K pid (kern s1) = (Succeeded r, k2)"
    and "os_singlestep K pid k2 = (Failed e, k3)"
  shows "asmcovtrace_next K pid fr s =
           (if e = ESRCH then Return 0
            else Exits 1 \<lparr>d_fmt = ''ptrace: %d'', d_args = [ArgInt e], d_errno = e\<rparr>,
            s\<lparr>errno := e,
              calls := calls s @ [SysWait, StoreErrno 0, SysPtrace PTRACE_GETREGS pid,
                                  SysPtrace PTRACE_SINGLESTEP pid] @
                       (if e = ESRCH then [] else [LibErr 1 ''ptrace: %d'' [ArgInt e]]),
              kern := k3\<rparr>)"
proof -
  from wait_frame [OF assms(1)]
  obtain e' k where s1: "s1 = s\<lparr>errno := e', calls := calls s @ [SysWait], kern := k\<rparr>"
    by blast
  show ?thesis
    using assms unfolding s1 by (simp add: traced_defs)
qed


subsection \<open>The traced child of the \<open>linux\<close> kernel\<close>

lemma linux_wait_exit:
  assumes "linux_wait k = (WaitReturns q st, k')" and "WIFEXITED st"
  shows "\<exists>c. tracee k = Resumed [] (ExitsWith c) \<and> st = W_EXITCODE c \<and> q = child k
             \<and> k' = k\<lparr>tracee := Reaped\<rparr>"
  using assms
  by (auto simp: linux_wait_def not_WIFEXITED_W_STOPCODE not_WIFEXITED_SIGKILL
           split: tracee.splits list.splits ending.splits)

lemma linux_next_reaped:
  assumes "tracee (kern t) = Reaped"
  shows "asmcovtrace_next linux pid fr t =
          (if WIFEXITED (status fr)
           then (Return (scast (WEXITSTATUS (status fr))),
                 t\<lparr>errno := ECHILD, calls := calls t @ [SysWait]\<rparr>)
           else (Return 0,
                 t\<lparr>errno := ESRCH,
                   calls := calls t @ [SysWait, StoreErrno 0, SysPtrace PTRACE_GETREGS pid]\<rparr>))"
  using assms by (simp add: next_defs linux_defs)

lemma linux_next_exit_state:
  assumes "linux_wait (kern t) = (WaitReturns q st, k')" and "WIFEXITED st"
  shows "tracee (kern (snd (asmcovtrace_next linux pid fr t))) = Reaped"
proof -
  from linux_wait_exit [OF assms] have k': "k' = (kern t)\<lparr>tracee := Reaped\<rparr>" by blast
  have "os_wait linux (kern t) = (WaitReturns q st, k')"
    using assms(1) by (simp add: linux_def)
  then have "wait linux (status fr) t =
      (Some (q, st), t\<lparr>calls := calls t @ [SysWait], kern := k'\<rparr>)"
    by (rule wait_returns)
  from next_exit_path [OF this assms(2)] k'
  show ?thesis by simp
qed

lemma linux_next_step:
  assumes "tracee k = Resumed (a # rest) e"
  shows "asmcovtrace_next linux (child k) fr \<lparr>errno = n, calls = cs, kern = k\<rparr> =
           (Return a,
            \<lparr>errno = 0,
             calls = cs @ [SysWait, StoreErrno 0, SysPtrace PTRACE_GETREGS (child k),
                           SysPtrace PTRACE_SINGLESTEP (child k)],
             kern = k\<lparr>tracee := Resumed rest e\<rparr>\<rparr>)"
  using assms by (simp add: next_defs linux_defs not_WIFEXITED_W_STOPCODE)

section \<open>The claims about \<^verbatim>\<open>asmcovtrace_next\<close>\<close>

text \<open>
  C1. A call on a traced process that is stopped: \<^verbatim>\<open>wait\<close> returns with a status that
  is not a normal exit, and the stopped process answers both ptrace requests. Then the
  call makes, in this order, the \<^verbatim>\<open>wait\<close>, the store of 0 to \<^verbatim>\<open>errno\<close>, the register
  read and exactly one single-step request, and it returns the \<^verbatim>\<open>rip\<close> of the registers
  read in the kernel state the \<^verbatim>\<open>wait\<close> has left, which is the state before the step is
  requested: the address reported is that of the instruction the step then runs. For
  the \<open>linux\<close> kernel this reads: a child that is about to stop before the instruction
  at \<open>a\<close> makes the call return \<open>a\<close>, and the call leaves the child running that one
  instruction, with the stops after \<open>a\<close> still to come.
\<close>

theorem next_reports_then_steps:
  assumes "wait K (status fr) s = (Some (rv, st), s1)" and "\<not> WIFEXITED st"
    and "os_getregs K pid (kern s1) = (Succeeded r, k2)"
    and "os_singlestep K pid k2 = (Succeeded u, k3)"
  shows "asmcovtrace_next K pid fr s =
           (Return (rip r),
            s\<lparr>errno := 0,
              calls := calls s @ [SysWait, StoreErrno 0, SysPtrace PTRACE_GETREGS pid,
                                  SysPtrace PTRACE_SINGLESTEP pid],
              kern := k3\<rparr>)
       \<and> (\<forall>k a rest e fr' n cs.
             tracee k = Resumed (a # rest) e \<longrightarrow>
             asmcovtrace_next linux (child k) fr' \<lparr>errno = n, calls = cs, kern = k\<rparr> =
               (Return a,
                \<lparr>errno = 0,
                 calls = cs @ [SysWait, StoreErrno 0, SysPtrace PTRACE_GETREGS (child k),
                               SysPtrace PTRACE_SINGLESTEP (child k)],
                 kern = k\<lparr>tracee := Resumed rest e\<rparr>\<rparr>))"
  using next_step_path [OF assms] by (simp add: linux_next_step)

theorem next_reports_then_steps_witness:
  "wait linux (status \<lparr>regs = \<lparr>rip = 7\<rparr>, status = 5\<rparr>) \<lparr>errno = 11, calls = [], kern = \<lparr>child = 42, tracee = Resumed [0x401000, 0x401004] (ExitsWith 0)\<rparr>\<rparr> =
     (Some (42, W_STOPCODE SIGTRAP), \<lparr>errno = 11, calls = [SysWait], kern = \<lparr>child = 42, tracee = Stopped 0x401000 [0x401004] (ExitsWith 0)\<rparr>\<rparr>)
   \<and> \<not> WIFEXITED (W_STOPCODE SIGTRAP)
   \<and> os_getregs linux 42 (kern \<lparr>errno = 11, calls = [SysWait], kern = \<lparr>child = 42, tracee = Stopped 0x401000 [0x401004] (ExitsWith 0)\<rparr>\<rparr>) =
       (Succeeded \<lparr>rip = 0x401000\<rparr>, \<lparr>child = 42, tracee = Stopped 0x401000 [0x401004] (ExitsWith 0)\<rparr>)
   \<and> os_singlestep linux 42 \<lparr>child = 42, tracee = Stopped 0x401000 [0x401004] (ExitsWith 0)\<rparr> =
       (Succeeded (), \<lparr>child = 42, tracee = Resumed [0x401004] (ExitsWith 0)\<rparr>)
   \<and> asmcovtrace_next linux 42 \<lparr>regs = \<lparr>rip = 7\<rparr>, status = 5\<rparr> \<lparr>errno = 11, calls = [], kern = \<lparr>child = 42, tracee = Resumed [0x401000, 0x401004] (ExitsWith 0)\<rparr>\<rparr> =
       (Return 0x401000, \<lparr>errno = 0, calls = [SysWait, StoreErrno 0, SysPtrace PTRACE_GETREGS 42, SysPtrace PTRACE_SINGLESTEP 42], kern = \<lparr>child = 42, tracee = Resumed [0x401004] (ExitsWith 0)\<rparr>\<rparr>)
   \<and> tracee \<lparr>child = 42, tracee = Resumed [0x401004] (ExitsWith 0)\<rparr> = Resumed [0x401004] (ExitsWith 0)
   \<and> asmcovtrace_next linux 42 \<lparr>regs = \<lparr>rip = 7\<rparr>, status = 5\<rparr> \<lparr>errno = 0, calls = [SysWait, StoreErrno 0, SysPtrace PTRACE_GETREGS 42, SysPtrace PTRACE_SINGLESTEP 42], kern = \<lparr>child = 42, tracee = Resumed [0x401004] (ExitsWith 0)\<rparr>\<rparr> =
       (Return 0x401004, \<lparr>errno = 0, calls = [SysWait, StoreErrno 0, SysPtrace PTRACE_GETREGS 42, SysPtrace PTRACE_SINGLESTEP 42,
          SysWait, StoreErrno 0, SysPtrace PTRACE_GETREGS 42, SysPtrace PTRACE_SINGLESTEP 42], kern = \<lparr>child = 42, tracee = Resumed [] (ExitsWith 0)\<rparr>\<rparr>)"
proof -
  have w: "wait linux (status \<lparr>regs = \<lparr>rip = 7\<rparr>, status = 5\<rparr>) \<lparr>errno = 11, calls = [], kern = \<lparr>child = 42, tracee = Resumed [0x401000, 0x401004] (ExitsWith 0)\<rparr>\<rparr> =
     (Some (42, W_STOPCODE SIGTRAP), \<lparr>errno = 11, calls = [SysWait], kern = \<lparr>child = 42, tracee = Stopped 0x401000 [0x401004] (ExitsWith 0)\<rparr>\<rparr>)"
    by (simp add: wait_def did_def linux_defs)
  have x: "\<not> WIFEXITED (W_STOPCODE SIGTRAP)"
    by (rule not_WIFEXITED_W_STOPCODE)
  have g: "os_getregs linux 42 (kern \<lparr>errno = 11, calls = [SysWait], kern = \<lparr>child = 42, tracee = Stopped 0x401000 [0x401004] (ExitsWith 0)\<rparr>\<rparr>) =
       (Succeeded \<lparr>rip = 0x401000\<rparr>, \<lparr>child = 42, tracee = Stopped 0x401000 [0x401004] (ExitsWith 0)\<rparr>)"
    by (simp add: linux_defs)
  have t: "os_singlestep linux 42 \<lparr>child = 42, tracee = Stopped 0x401000 [0x401004] (ExitsWith 0)\<rparr> =
       (Succeeded (), \<lparr>child = 42, tracee = Resumed [0x401004] (ExitsWith 0)\<rparr>)"
    by (simp add: linux_defs)
  note u = next_reports_then_steps [OF w x g t]
  from u have first: "asmcovtrace_next linux 42 \<lparr>regs = \<lparr>rip = 7\<rparr>, status = 5\<rparr> \<lparr>errno = 11, calls = [], kern = \<lparr>child = 42, tracee = Resumed [0x401000, 0x401004] (ExitsWith 0)\<rparr>\<rparr> =
       (Return 0x401000, \<lparr>errno = 0, calls = [SysWait, StoreErrno 0, SysPtrace PTRACE_GETREGS 42, SysPtrace PTRACE_SINGLESTEP 42], kern = \<lparr>child = 42, tracee = Resumed [0x401004] (ExitsWith 0)\<rparr>\<rparr>)"
    by simp
  have m: "tracee \<lparr>child = 42, tracee = Resumed [0x401004] (ExitsWith 0)\<rparr> = Resumed [0x401004] (ExitsWith 0)"
    by simp
  from u have "\<forall>k a rest e fr' n cs.
             tracee k = Resumed (a # rest) e \<longrightarrow>
             asmcovtrace_next linux (child k) fr' \<lparr>errno = n, calls = cs, kern = k\<rparr> =
               (Return a,
                \<lparr>errno = 0,
                 calls = cs @ [SysWait, StoreErrno 0, SysPtrace PTRACE_GETREGS (child k),
                               SysPtrace PTRACE_SINGLESTEP (child k)],
                 kern = k\<lparr>tracee := Resumed rest e\<rparr>\<rparr>)"
    by (rule conjunct2)
  from this [rule_format, OF m, of "\<lparr>regs = \<lparr>rip = 7\<rparr>, status = 5\<rparr>" 0
      "[SysWait, StoreErrno 0, SysPtrace PTRACE_GETREGS 42, SysPtrace PTRACE_SINGLESTEP 42]"]
  have second: "asmcovtrace_next linux 42 \<lparr>regs = \<lparr>rip = 7\<rparr>, status = 5\<rparr> \<lparr>errno = 0, calls = [SysWait, StoreErrno 0, SysPtrace PTRACE_GETREGS 42, SysPtrace PTRACE_SINGLESTEP 42], kern = \<lparr>child = 42, tracee = Resumed [0x401004] (ExitsWith 0)\<rparr>\<rparr> =
       (Return 0x401004, \<lparr>errno = 0, calls = [SysWait, StoreErrno 0, SysPtrace PTRACE_GETREGS 42, SysPtrace PTRACE_SINGLESTEP 42,
          SysWait, StoreErrno 0, SysPtrace PTRACE_GETREGS 42, SysPtrace PTRACE_SINGLESTEP 42], kern = \<lparr>child = 42, tracee = Resumed [] (ExitsWith 0)\<rparr>\<rparr>)"
    by simp
  show ?thesis
    using w x g t first m second by simp
qed

text \<open>
  C2. When \<^verbatim>\<open>wait\<close> has left in \<^verbatim>\<open>status\<close> a value that says normal exit, the call
  returns \<^verbatim>\<open>WEXITSTATUS(status)\<close>, a value of at most 255 that is the child's exit code
  \<open>c\<close> when the status is the kernel's encoding of \<open>c\<close>; the \<^verbatim>\<open>wait\<close> is the only call
  it makes, so no register is read and no step is requested, and the kernel is in the
  state the \<^verbatim>\<open>wait\<close> left. That no further stepping is possible afterwards is a fact
  about the operating system, shown here for the \<open>linux\<close> kernel: once a call has seen
  the exit, the child is reaped, every single-step request is answered \<^verbatim>\<open>ESRCH\<close>, and a
  further call of \<^verbatim>\<open>asmcovtrace_next\<close> leaves the kernel as it is and requests no step.
\<close>

theorem next_exited_returns_status:
  assumes "wait K (status fr) s = (Some (rv, st), s1)" and "WIFEXITED st"
  shows "asmcovtrace_next K pid fr s = (Return (scast (WEXITSTATUS st)), s1)
       \<and> calls s1 = calls s @ [SysWait]
       \<and> kern s1 = snd (os_wait K (kern s))
       \<and> unat (scast (WEXITSTATUS st) :: 64 word) \<le> 255
       \<and> (\<forall>c. st = W_EXITCODE c \<longrightarrow> scast (WEXITSTATUS st) = (ucast c :: 64 word))
       \<and> (\<forall>t q st' k' pid1 fr1 pid2 fr2.
             linux_wait (kern t) = (WaitReturns q st', k') \<and> WIFEXITED st' \<longrightarrow>
             (let t1 = snd (asmcovtrace_next linux pid1 fr1 t);
                  r2 = asmcovtrace_next linux pid2 fr2 t1
              in tracee (kern t1) = Reaped
               \<and> fst (linux_singlestep pid2 (kern t1)) = Failed ESRCH
               \<and> kern (snd r2) = kern t1
               \<and> SysPtrace PTRACE_SINGLESTEP pid2
                    \<notin> set (drop (length (calls t1)) (calls (snd r2)))))"
proof (intro conjI allI impI)
  show "asmcovtrace_next K pid fr s = (Return (scast (WEXITSTATUS st)), s1)"
    using assms by (rule next_exit_path)
  show "calls s1 = calls s @ [SysWait]"
    using assms(1) by (rule wait_calls)
  show "kern s1 = snd (os_wait K (kern s))"
    using assms(1) by (rule wait_kern)
  show "unat (scast (WEXITSTATUS st) :: 64 word) \<le> 255"
    by (rule WEXITSTATUS_ull_le)
  show "scast (WEXITSTATUS st) = (ucast c :: 64 word)" if "st = W_EXITCODE c" for c
    using that by (simp add: scast_exit)
next
  fix t :: "kernel proc" and q st' k' pid1 fr1 pid2 fr2
  assume h: "linux_wait (kern t) = (WaitReturns q st', k') \<and> WIFEXITED st'"
  define t1 where "t1 = snd (asmcovtrace_next linux pid1 fr1 t)"
  have r: "tracee (kern t1) = Reaped"
    unfolding t1_def using h by (auto intro: linux_next_exit_state)
  show "let t1 = snd (asmcovtrace_next linux pid1 fr1 t);
            r2 = asmcovtrace_next linux pid2 fr2 t1
        in tracee (kern t1) = Reaped
         \<and> fst (linux_singlestep pid2 (kern t1)) = Failed ESRCH
         \<and> kern (snd r2) = kern t1
         \<and> SysPtrace PTRACE_SINGLESTEP pid2 \<notin> set (drop (length (calls t1)) (calls (snd r2)))"
    unfolding Let_def t1_def [symmetric]
    using r by (simp add: linux_next_reaped linux_singlestep_def)
qed

theorem next_exited_returns_status_witness:
  "wait linux (status \<lparr>regs = \<lparr>rip = 7\<rparr>, status = 5\<rparr>) \<lparr>errno = 0, calls = [], kern = \<lparr>child = 42, tracee = Resumed [] (ExitsWith 3)\<rparr>\<rparr> =
     (Some (42, W_EXITCODE 3), \<lparr>errno = 0, calls = [SysWait], kern = \<lparr>child = 42, tracee = Reaped\<rparr>\<rparr>)
   \<and> WIFEXITED (W_EXITCODE 3)
   \<and> asmcovtrace_next linux 42 \<lparr>regs = \<lparr>rip = 7\<rparr>, status = 5\<rparr> \<lparr>errno = 0, calls = [], kern = \<lparr>child = 42, tracee = Resumed [] (ExitsWith 3)\<rparr>\<rparr> =
       (Return 3, \<lparr>errno = 0, calls = [SysWait], kern = \<lparr>child = 42, tracee = Reaped\<rparr>\<rparr>)
   \<and> linux_wait (kern \<lparr>errno = 0, calls = [], kern = \<lparr>child = 42, tracee = Resumed [] (ExitsWith 3)\<rparr>\<rparr>) =
       (WaitReturns 42 (W_EXITCODE 3), \<lparr>child = 42, tracee = Reaped\<rparr>)
   \<and> fst (linux_singlestep 42 \<lparr>child = 42, tracee = Reaped\<rparr>) = Failed ESRCH
   \<and> kern (snd (asmcovtrace_next linux 42 \<lparr>regs = \<lparr>rip = 7\<rparr>, status = 5\<rparr> \<lparr>errno = 0, calls = [SysWait], kern = \<lparr>child = 42, tracee = Reaped\<rparr>\<rparr>)) =
       \<lparr>child = 42, tracee = Reaped\<rparr>"
proof -
  have w: "wait linux (status \<lparr>regs = \<lparr>rip = 7\<rparr>, status = 5\<rparr>) \<lparr>errno = 0, calls = [], kern = \<lparr>child = 42, tracee = Resumed [] (ExitsWith 3)\<rparr>\<rparr> =
     (Some (42, W_EXITCODE 3), \<lparr>errno = 0, calls = [SysWait], kern = \<lparr>child = 42, tracee = Reaped\<rparr>\<rparr>)"
    by (simp add: wait_def did_def linux_defs)
  have x: "WIFEXITED (W_EXITCODE 3)"
    by (rule WIFEXITED_W_EXITCODE)
  have l: "linux_wait (kern \<lparr>errno = 0, calls = [], kern = \<lparr>child = 42, tracee = Resumed [] (ExitsWith 3)\<rparr>\<rparr>) =
       (WaitReturns 42 (W_EXITCODE 3), \<lparr>child = 42, tracee = Reaped\<rparr>)"
    by (simp add: linux_defs)
  note u = next_exited_returns_status [OF w x, of 42]
  from u have "scast (WEXITSTATUS (W_EXITCODE 3)) = (ucast (3 :: 8 word) :: 64 word)"
    by blast
  with u have first: "asmcovtrace_next linux 42 \<lparr>regs = \<lparr>rip = 7\<rparr>, status = 5\<rparr> \<lparr>errno = 0, calls = [], kern = \<lparr>child = 42, tracee = Resumed [] (ExitsWith 3)\<rparr>\<rparr> =
       (Return 3, \<lparr>errno = 0, calls = [SysWait], kern = \<lparr>child = 42, tracee = Reaped\<rparr>\<rparr>)"
    by simp
  from u have
    "\<forall>t q st' k' pid1 fr1 pid2 fr2.
       linux_wait (kern t) = (WaitReturns q st', k') \<and> WIFEXITED st' \<longrightarrow>
       (let t1 = snd (asmcovtrace_next linux pid1 fr1 t);
            r2 = asmcovtrace_next linux pid2 fr2 t1
        in tracee (kern t1) = Reaped
         \<and> fst (linux_singlestep pid2 (kern t1)) = Failed ESRCH
         \<and> kern (snd r2) = kern t1
         \<and> SysPtrace PTRACE_SINGLESTEP pid2
              \<notin> set (drop (length (calls t1)) (calls (snd r2))))"
    by blast
  then have
    "let t1 = snd (asmcovtrace_next linux 42 \<lparr>regs = \<lparr>rip = 7\<rparr>, status = 5\<rparr> \<lparr>errno = 0, calls = [], kern = \<lparr>child = 42, tracee = Resumed [] (ExitsWith 3)\<rparr>\<rparr>);
         r2 = asmcovtrace_next linux 42 \<lparr>regs = \<lparr>rip = 7\<rparr>, status = 5\<rparr> t1
     in tracee (kern t1) = Reaped
      \<and> fst (linux_singlestep 42 (kern t1)) = Failed ESRCH
      \<and> kern (snd r2) = kern t1
      \<and> SysPtrace PTRACE_SINGLESTEP 42 \<notin> set (drop (length (calls t1)) (calls (snd r2)))"
    using l x by blast
  then have later:
    "fst (linux_singlestep 42 \<lparr>child = 42, tracee = Reaped\<rparr>) = Failed ESRCH
     \<and> kern (snd (asmcovtrace_next linux 42 \<lparr>regs = \<lparr>rip = 7\<rparr>, status = 5\<rparr> \<lparr>errno = 0, calls = [SysWait], kern = \<lparr>child = 42, tracee = Reaped\<rparr>\<rparr>)) =
       \<lparr>child = 42, tracee = Reaped\<rparr>"
    unfolding first Let_def by simp
  show ?thesis
    using w x first l later by simp
qed

text \<open>
  C3. When \<^verbatim>\<open>wait\<close> has left a status that is not a normal exit and the register read
  fails with \<^verbatim>\<open>ESRCH\<close>, or the register read succeeds and the single-step request
  fails with \<^verbatim>\<open>ESRCH\<close>, the call returns 0 and does not reach \<^verbatim>\<open>err\<close>: the calls it
  makes are the \<^verbatim>\<open>wait\<close>, the store to \<^verbatim>\<open>errno\<close> and the ptrace requests. The result
  is the one a call returns for a child of the \<open>linux\<close> kernel that is stopped before an
  instruction at address 0.
\<close>

theorem next_vanished_returns_zero:
  assumes "wait K (status fr) s = (Some (rv, st), s1)" and "\<not> WIFEXITED st"
    and "os_getregs K pid (kern s1) = (Failed ESRCH, k2)
         \<or> (os_getregs K pid (kern s1) = (Succeeded r, k2)
            \<and> os_singlestep K pid k2 = (Failed ESRCH, k3))"
  shows "fst (asmcovtrace_next K pid fr s) = Return 0
       \<and> (calls (snd (asmcovtrace_next K pid fr s)) =
            calls s @ [SysWait, StoreErrno 0, SysPtrace PTRACE_GETREGS pid]
          \<or> calls (snd (asmcovtrace_next K pid fr s)) =
            calls s @ [SysWait, StoreErrno 0, SysPtrace PTRACE_GETREGS pid,
                       SysPtrace PTRACE_SINGLESTEP pid])
       \<and> fst (asmcovtrace_next K pid fr s) =
           fst (asmcovtrace_next linux c fr'
                  \<lparr>errno = n, calls = cs, kern = \<lparr>child = c, tracee = Resumed (0 # rest) e\<rparr>\<rparr>)"
proof -
  have stop0: "fst (asmcovtrace_next linux c fr'
                 \<lparr>errno = n, calls = cs, kern = \<lparr>child = c, tracee = Resumed (0 # rest) e\<rparr>\<rparr>)
               = Return 0"
    using linux_next_step [of "\<lparr>child = c, tracee = Resumed (0 # rest) e\<rparr>" 0 rest e fr' n cs]
    by simp
  from assms(3) show ?thesis
  proof
    assume "os_getregs K pid (kern s1) = (Failed ESRCH, k2)"
    from next_getregs_fails [OF assms(1,2) this] show ?thesis
      by (simp add: stop0)
  next
    assume "os_getregs K pid (kern s1) = (Succeeded r, k2)
              \<and> os_singlestep K pid k2 = (Failed ESRCH, k3)"
    then have "os_getregs K pid (kern s1) = (Succeeded r, k2)"
      "os_singlestep K pid k2 = (Failed ESRCH, k3)"
      by simp_all
    from next_singlestep_fails [OF assms(1,2) this] show ?thesis
      by (simp add: stop0)
  qed
qed

theorem next_vanished_returns_zero_witness:
  "wait linux (status \<lparr>regs = \<lparr>rip = 7\<rparr>, status = 5\<rparr>) \<lparr>errno = 11, calls = [], kern = \<lparr>child = 42, tracee = Resumed [] Killed\<rparr>\<rparr> =
     (Some (42, SIGKILL), \<lparr>errno = 11, calls = [SysWait], kern = \<lparr>child = 42, tracee = Reaped\<rparr>\<rparr>)
   \<and> \<not> WIFEXITED SIGKILL
   \<and> os_getregs linux 42 (kern \<lparr>errno = 11, calls = [SysWait], kern = \<lparr>child = 42, tracee = Reaped\<rparr>\<rparr>) =
       (Failed ESRCH, \<lparr>child = 42, tracee = Reaped\<rparr>)
   \<and> fst (asmcovtrace_next linux 42 \<lparr>regs = \<lparr>rip = 7\<rparr>, status = 5\<rparr> \<lparr>errno = 11, calls = [], kern = \<lparr>child = 42, tracee = Resumed [] Killed\<rparr>\<rparr>) = Return 0
   \<and> wait (scripted_trace (WaitReturns 42 (W_STOPCODE SIGTRAP))
        (Succeeded \<lparr>rip = 0x401000\<rparr>) (Failed ESRCH)) (status \<lparr>regs = \<lparr>rip = 7\<rparr>, status = 5\<rparr>) \<lparr>errno = 11, calls = [], kern = ()\<rparr> =
       (Some (42, W_STOPCODE SIGTRAP), \<lparr>errno = 11, calls = [SysWait], kern = ()\<rparr>)
   \<and> \<not> WIFEXITED (W_STOPCODE SIGTRAP)
   \<and> os_getregs (scripted_trace (WaitReturns 42 (W_STOPCODE SIGTRAP))
        (Succeeded \<lparr>rip = 0x401000\<rparr>) (Failed ESRCH)) 42 (kern \<lparr>errno = 11, calls = [SysWait], kern = ()\<rparr>) =
       (Succeeded \<lparr>rip = 0x401000\<rparr>, ())
   \<and> os_singlestep (scripted_trace (WaitReturns 42 (W_STOPCODE SIGTRAP))
        (Succeeded \<lparr>rip = 0x401000\<rparr>) (Failed ESRCH)) 42 () = (Failed ESRCH, ())
   \<and> fst (asmcovtrace_next (scripted_trace (WaitReturns 42 (W_STOPCODE SIGTRAP))
        (Succeeded \<lparr>rip = 0x401000\<rparr>) (Failed ESRCH)) 42 \<lparr>regs = \<lparr>rip = 7\<rparr>, status = 5\<rparr> \<lparr>errno = 11, calls = [], kern = ()\<rparr>) = Return 0
   \<and> wait (scripted_trace (WaitFails ECHILD) (Failed ESRCH) (Succeeded ())) (status \<lparr>regs = \<lparr>rip = 7\<rparr>, status = 5\<rparr>) \<lparr>errno = 11, calls = [], kern = ()\<rparr> =
       (Some (- 1, 5), \<lparr>errno = 10, calls = [SysWait], kern = ()\<rparr>)
   \<and> \<not> WIFEXITED 5
   \<and> os_getregs (scripted_trace (WaitFails ECHILD) (Failed ESRCH) (Succeeded ())) 42 (kern \<lparr>errno = 10, calls = [SysWait], kern = ()\<rparr>) = (Failed ESRCH, ())
   \<and> fst (asmcovtrace_next (scripted_trace (WaitFails ECHILD) (Failed ESRCH) (Succeeded ())) 42 \<lparr>regs = \<lparr>rip = 7\<rparr>, status = 5\<rparr> \<lparr>errno = 11, calls = [], kern = ()\<rparr>) = Return 0"
proof -
  have w: "wait linux (status \<lparr>regs = \<lparr>rip = 7\<rparr>, status = 5\<rparr>) \<lparr>errno = 11, calls = [], kern = \<lparr>child = 42, tracee = Resumed [] Killed\<rparr>\<rparr> =
     (Some (42, SIGKILL), \<lparr>errno = 11, calls = [SysWait], kern = \<lparr>child = 42, tracee = Reaped\<rparr>\<rparr>)"
    by (simp add: wait_def did_def linux_defs)
  have x: "\<not> WIFEXITED SIGKILL"
    by (rule not_WIFEXITED_SIGKILL)
  have g: "os_getregs linux 42 (kern \<lparr>errno = 11, calls = [SysWait], kern = \<lparr>child = 42, tracee = Reaped\<rparr>\<rparr>) =
       (Failed ESRCH, \<lparr>child = 42, tracee = Reaped\<rparr>)"
    by (simp add: linux_defs)
  have killed: "fst (asmcovtrace_next linux 42 \<lparr>regs = \<lparr>rip = 7\<rparr>, status = 5\<rparr> \<lparr>errno = 11, calls = [], kern = \<lparr>child = 42, tracee = Resumed [] Killed\<rparr>\<rparr>) = Return 0"
    using next_vanished_returns_zero [OF w x disjI1, OF g] by simp
  have w': "wait (scripted_trace (WaitReturns 42 (W_STOPCODE SIGTRAP))
        (Succeeded \<lparr>rip = 0x401000\<rparr>) (Failed ESRCH)) (status \<lparr>regs = \<lparr>rip = 7\<rparr>, status = 5\<rparr>) \<lparr>errno = 11, calls = [], kern = ()\<rparr> =
       (Some (42, W_STOPCODE SIGTRAP), \<lparr>errno = 11, calls = [SysWait], kern = ()\<rparr>)"
    by (simp add: wait_def did_def scripted_trace_def)
  have x': "\<not> WIFEXITED (W_STOPCODE SIGTRAP)"
    by (rule not_WIFEXITED_W_STOPCODE)
  have g': "os_getregs (scripted_trace (WaitReturns 42 (W_STOPCODE SIGTRAP))
        (Succeeded \<lparr>rip = 0x401000\<rparr>) (Failed ESRCH)) 42 (kern \<lparr>errno = 11, calls = [SysWait], kern = ()\<rparr>) =
       (Succeeded \<lparr>rip = 0x401000\<rparr>, ())
     \<and> os_singlestep (scripted_trace (WaitReturns 42 (W_STOPCODE SIGTRAP))
        (Succeeded \<lparr>rip = 0x401000\<rparr>) (Failed ESRCH)) 42 () = (Failed ESRCH, ())"
    by (simp add: scripted_trace_def)
  have raced: "fst (asmcovtrace_next (scripted_trace (WaitReturns 42 (W_STOPCODE SIGTRAP))
        (Succeeded \<lparr>rip = 0x401000\<rparr>) (Failed ESRCH)) 42 \<lparr>regs = \<lparr>rip = 7\<rparr>, status = 5\<rparr> \<lparr>errno = 11, calls = [], kern = ()\<rparr>) = Return 0"
    using next_vanished_returns_zero [OF w' x' disjI2, OF g'] by simp
  have w'': "wait (scripted_trace (WaitFails ECHILD) (Failed ESRCH) (Succeeded ())) (status \<lparr>regs = \<lparr>rip = 7\<rparr>, status = 5\<rparr>) \<lparr>errno = 11, calls = [], kern = ()\<rparr> =
       (Some (- 1, 5), \<lparr>errno = 10, calls = [SysWait], kern = ()\<rparr>)"
    by (simp add: wait_def did_def scripted_trace_def ECHILD_def)
  have x'': "\<not> WIFEXITED 5"
    by (simp add: WIFEXITED_def)
  have g'': "os_getregs (scripted_trace (WaitFails ECHILD) (Failed ESRCH) (Succeeded ())) 42 (kern \<lparr>errno = 10, calls = [SysWait], kern = ()\<rparr>) = (Failed ESRCH, ())"
    by (simp add: scripted_trace_def)
  have gone: "fst (asmcovtrace_next (scripted_trace (WaitFails ECHILD) (Failed ESRCH) (Succeeded ())) 42 \<lparr>regs = \<lparr>rip = 7\<rparr>, status = 5\<rparr> \<lparr>errno = 11, calls = [], kern = ()\<rparr>) = Return 0"
    using next_vanished_returns_zero [OF w'' x'' disjI1, OF g''] by simp
  show ?thesis
    using w x g killed w' x' g' raced w'' x'' g'' gone by simp
qed

text \<open>
  C4, as amended. When \<^verbatim>\<open>wait\<close> has left a status that is not a normal exit and the
  register read, or after it the single-step request, fails with an error number \<open>e\<close>
  other than \<^verbatim>\<open>ESRCH\<close>, the failure is not swallowed and the call does not return: it
  ends in \<^verbatim>\<open>err(1, "ptrace: %d", errno)\<close>, the last thing the process does. The process
  exits with the non-zero status 1, and the diagnostic names \<^verbatim>\<open>ptrace\<close> and the error
  number \<open>e\<close> (as the formatted number and as the error text \<^verbatim>\<open>err\<close> appends). Status
  and diagnostic are what the theorem says whichever of the two requests has failed: they
  tell that a ptrace request failed and why, not which one.
\<close>

theorem next_ptrace_failure_aborts:
  assumes "wait K (status fr) s = (Some (rv, st), s1)" and "\<not> WIFEXITED st"
    and "e \<noteq> ESRCH"
    and "os_getregs K pid (kern s1) = (Failed e, k2)
         \<or> (os_getregs K pid (kern s1) = (Succeeded r, k2)
            \<and> os_singlestep K pid k2 = (Failed e, k3))"
  shows "fst (asmcovtrace_next K pid fr s) =
           Exits 1 \<lparr>d_fmt = ''ptrace: %d'', d_args = [ArgInt e], d_errno = e\<rparr>
       \<and> (\<exists>before. calls (snd (asmcovtrace_next K pid fr s)) =
              before @ [LibErr 1 ''ptrace: %d'' [ArgInt e]])
       \<and> errno (snd (asmcovtrace_next K pid fr s)) = e"
  using assms(4)
proof
  assume "os_getregs K pid (kern s1) = (Failed e, k2)"
  from next_getregs_fails [OF assms(1,2) this] assms(3) show ?thesis
    by simp
next
  assume "os_getregs K pid (kern s1) = (Succeeded r, k2)
            \<and> os_singlestep K pid k2 = (Failed e, k3)"
  then have "os_getregs K pid (kern s1) = (Succeeded r, k2)"
    "os_singlestep K pid k2 = (Failed e, k3)"
    by simp_all
  from next_singlestep_fails [OF assms(1,2) this] assms(3) show ?thesis
    by simp
qed

theorem next_ptrace_failure_aborts_witness:
  "wait (scripted_trace (WaitReturns 42 (W_STOPCODE SIGTRAP))
        (Failed EPERM) (Succeeded ())) (status \<lparr>regs = \<lparr>rip = 7\<rparr>, status = 5\<rparr>) \<lparr>errno = 11, calls = [], kern = ()\<rparr> =
     (Some (42, W_STOPCODE SIGTRAP), \<lparr>errno = 11, calls = [SysWait], kern = ()\<rparr>)
   \<and> \<not> WIFEXITED (W_STOPCODE SIGTRAP)
   \<and> EPERM \<noteq> ESRCH
   \<and> os_getregs (scripted_trace (WaitReturns 42 (W_STOPCODE SIGTRAP))
        (Failed EPERM) (Succeeded ())) 42 (kern \<lparr>errno = 11, calls = [SysWait], kern = ()\<rparr>) = (Failed EPERM, ())
   \<and> fst (asmcovtrace_next (scripted_trace (WaitReturns 42 (W_STOPCODE SIGTRAP))
        (Failed EPERM) (Succeeded ())) 42 \<lparr>regs = \<lparr>rip = 7\<rparr>, status = 5\<rparr> \<lparr>errno = 11, calls = [], kern = ()\<rparr>) =
       Exits 1 \<lparr>d_fmt = ''ptrace: %d'', d_args = [ArgInt 1], d_errno = 1\<rparr>
   \<and> wait (scripted_trace (WaitReturns 42 (W_STOPCODE SIGTRAP))
        (Succeeded \<lparr>rip = 0x401000\<rparr>) (Failed EPERM)) (status \<lparr>regs = \<lparr>rip = 7\<rparr>, status = 5\<rparr>) \<lparr>errno = 11, calls = [], kern = ()\<rparr> =
       (Some (42, W_STOPCODE SIGTRAP), \<lparr>errno = 11, calls = [SysWait], kern = ()\<rparr>)
   \<and> os_getregs (scripted_trace (WaitReturns 42 (W_STOPCODE SIGTRAP))
        (Succeeded \<lparr>rip = 0x401000\<rparr>) (Failed EPERM)) 42 (kern \<lparr>errno = 11, calls = [SysWait], kern = ()\<rparr>) =
       (Succeeded \<lparr>rip = 0x401000\<rparr>, ())
   \<and> os_singlestep (scripted_trace (WaitReturns 42 (W_STOPCODE SIGTRAP))
        (Succeeded \<lparr>rip = 0x401000\<rparr>) (Failed EPERM)) 42 () = (Failed EPERM, ())
   \<and> fst (asmcovtrace_next (scripted_trace (WaitReturns 42 (W_STOPCODE SIGTRAP))
        (Succeeded \<lparr>rip = 0x401000\<rparr>) (Failed EPERM)) 42 \<lparr>regs = \<lparr>rip = 7\<rparr>, status = 5\<rparr> \<lparr>errno = 11, calls = [], kern = ()\<rparr>) =
       Exits 1 \<lparr>d_fmt = ''ptrace: %d'', d_args = [ArgInt 1], d_errno = 1\<rparr>"
proof -
  have x: "\<not> WIFEXITED (W_STOPCODE SIGTRAP)"
    by (rule not_WIFEXITED_W_STOPCODE)
  have ne: "EPERM \<noteq> ESRCH"
    by (simp add: EPERM_def ESRCH_def)
  have w: "wait (scripted_trace (WaitReturns 42 (W_STOPCODE SIGTRAP))
        (Failed EPERM) (Succeeded ())) (status \<lparr>regs = \<lparr>rip = 7\<rparr>, status = 5\<rparr>) \<lparr>errno = 11, calls = [], kern = ()\<rparr> =
     (Some (42, W_STOPCODE SIGTRAP), \<lparr>errno = 11, calls = [SysWait], kern = ()\<rparr>)"
    by (simp add: wait_def did_def scripted_trace_def)
  have g: "os_getregs (scripted_trace (WaitReturns 42 (W_STOPCODE SIGTRAP))
        (Failed EPERM) (Succeeded ())) 42 (kern \<lparr>errno = 11, calls = [SysWait], kern = ()\<rparr>) = (Failed EPERM, ())"
    by (simp add: scripted_trace_def)
  have first: "fst (asmcovtrace_next (scripted_trace (WaitReturns 42 (W_STOPCODE SIGTRAP))
        (Failed EPERM) (Succeeded ())) 42 \<lparr>regs = \<lparr>rip = 7\<rparr>, status = 5\<rparr> \<lparr>errno = 11, calls = [], kern = ()\<rparr>) =
       Exits 1 \<lparr>d_fmt = ''ptrace: %d'', d_args = [ArgInt 1], d_errno = 1\<rparr>"
    using next_ptrace_failure_aborts [OF w x ne disjI1, OF g] by (simp add: EPERM_def)
  have w': "wait (scripted_trace (WaitReturns 42 (W_STOPCODE SIGTRAP))
        (Succeeded \<lparr>rip = 0x401000\<rparr>) (Failed EPERM)) (status \<lparr>regs = \<lparr>rip = 7\<rparr>, status = 5\<rparr>) \<lparr>errno = 11, calls = [], kern = ()\<rparr> =
       (Some (42, W_STOPCODE SIGTRAP), \<lparr>errno = 11, calls = [SysWait], kern = ()\<rparr>)"
    by (simp add: wait_def did_def scripted_trace_def)
  have g': "os_getregs (scripted_trace (WaitReturns 42 (W_STOPCODE SIGTRAP))
        (Succeeded \<lparr>rip = 0x401000\<rparr>) (Failed EPERM)) 42 (kern \<lparr>errno = 11, calls = [SysWait], kern = ()\<rparr>) =
       (Succeeded \<lparr>rip = 0x401000\<rparr>, ())
     \<and> os_singlestep (scripted_trace (WaitReturns 42 (W_STOPCODE SIGTRAP))
        (Succeeded \<lparr>rip = 0x401000\<rparr>) (Failed EPERM)) 42 () = (Failed EPERM, ())"
    by (simp add: scripted_trace_def)
  have second: "fst (asmcovtrace_next (scripted_trace (WaitReturns 42 (W_STOPCODE SIGTRAP))
        (Succeeded \<lparr>rip = 0x401000\<rparr>) (Failed EPERM)) 42 \<lparr>regs = \<lparr>rip = 7\<rparr>, status = 5\<rparr> \<lparr>errno = 11, calls = [], kern = ()\<rparr>) =
       Exits 1 \<lparr>d_fmt = ''ptrace: %d'', d_args = [ArgInt 1], d_errno = 1\<rparr>"
    using next_ptrace_failure_aborts [OF w' x ne disjI2, OF g'] by (simp add: EPERM_def)
  show ?thesis
    using x ne w g first w' g' second by simp
qed

text \<open>
  The claim as the specification states it asks for more: a status that is distinct and
  a diagnostic that identifies which operation failed. Neither holds. A register read
  that fails with \<^verbatim>\<open>EPERM\<close> and a single-step request that fails with \<^verbatim>\<open>EPERM\<close> after
  a successful register read end in the same outcome, status and diagnostic alike,
  though the calls made differ; and the status 1 is also the status with which
  \<^verbatim>\<open>asmcovtrace_open\<close> exits when \<^verbatim>\<open>fork\<close> fails.
\<close>

theorem next_ptrace_failure_not_told_apart:
  "fst (asmcovtrace_next (scripted_trace (WaitReturns 42 (W_STOPCODE SIGTRAP))
        (Failed EPERM) (Succeeded ())) 42 \<lparr>regs = \<lparr>rip = 7\<rparr>, status = 5\<rparr> \<lparr>errno = 11, calls = [], kern = ()\<rparr>) =
     Exits 1 \<lparr>d_fmt = ''ptrace: %d'', d_args = [ArgInt 1], d_errno = 1\<rparr>
   \<and> fst (asmcovtrace_next (scripted_trace (WaitReturns 42 (W_STOPCODE SIGTRAP))
        (Succeeded \<lparr>rip = 0x401000\<rparr>) (Failed EPERM)) 42 \<lparr>regs = \<lparr>rip = 7\<rparr>, status = 5\<rparr> \<lparr>errno = 11, calls = [], kern = ()\<rparr>) =
       fst (asmcovtrace_next (scripted_trace (WaitReturns 42 (W_STOPCODE SIGTRAP))
        (Failed EPERM) (Succeeded ())) 42 \<lparr>regs = \<lparr>rip = 7\<rparr>, status = 5\<rparr> \<lparr>errno = 11, calls = [], kern = ()\<rparr>)
   \<and> calls (snd (asmcovtrace_next (scripted_trace (WaitReturns 42 (W_STOPCODE SIGTRAP))
        (Failed EPERM) (Succeeded ())) 42 \<lparr>regs = \<lparr>rip = 7\<rparr>, status = 5\<rparr> \<lparr>errno = 11, calls = [], kern = ()\<rparr>)) =
       [SysWait, StoreErrno 0, SysPtrace PTRACE_GETREGS 42,
        LibErr 1 ''ptrace: %d'' [ArgInt 1]]
   \<and> calls (snd (asmcovtrace_next (scripted_trace (WaitReturns 42 (W_STOPCODE SIGTRAP))
        (Succeeded \<lparr>rip = 0x401000\<rparr>) (Failed EPERM)) 42 \<lparr>regs = \<lparr>rip = 7\<rparr>, status = 5\<rparr> \<lparr>errno = 11, calls = [], kern = ()\<rparr>)) =
       [SysWait, StoreErrno 0, SysPtrace PTRACE_GETREGS 42, SysPtrace PTRACE_SINGLESTEP 42,
        LibErr 1 ''ptrace: %d'' [ArgInt 1]]
   \<and> fst (asmcovtrace_open (scripted_spawn (ForkFailed EPERM) (Succeeded ()) (Succeeded ())) ''/bin/true'' [''true''] \<lparr>errno = 0, calls = [], kern = ()\<rparr>) =
       Exits 1 \<lparr>d_fmt = ''fork'', d_args = [], d_errno = 1\<rparr>"
proof -
  have x: "\<not> WIFEXITED (W_STOPCODE SIGTRAP)"
    by (rule not_WIFEXITED_W_STOPCODE)
  have ne: "EPERM \<noteq> ESRCH" and ep: "EPERM = 1"
    by (simp_all add: EPERM_def ESRCH_def)
  have w: "wait (scripted_trace (WaitReturns 42 (W_STOPCODE SIGTRAP))
        (Failed EPERM) (Succeeded ())) (status \<lparr>regs = \<lparr>rip = 7\<rparr>, status = 5\<rparr>) \<lparr>errno = 11, calls = [], kern = ()\<rparr> =
      (Some (42, W_STOPCODE SIGTRAP), \<lparr>errno = 11, calls = [SysWait], kern = ()\<rparr>)"
    by (simp add: wait_def did_def scripted_trace_def)
  have g: "os_getregs (scripted_trace (WaitReturns 42 (W_STOPCODE SIGTRAP))
        (Failed EPERM) (Succeeded ())) 42 (kern \<lparr>errno = 11, calls = [SysWait], kern = ()\<rparr>) =
      (Failed EPERM, ())"
    by (simp add: scripted_trace_def)
  have a: "asmcovtrace_next (scripted_trace (WaitReturns 42 (W_STOPCODE SIGTRAP))
        (Failed EPERM) (Succeeded ())) 42 \<lparr>regs = \<lparr>rip = 7\<rparr>, status = 5\<rparr> \<lparr>errno = 11, calls = [], kern = ()\<rparr> =
      (Exits 1 \<lparr>d_fmt = ''ptrace: %d'', d_args = [ArgInt 1], d_errno = 1\<rparr>,
       \<lparr>errno = 1,
        calls = [SysWait, StoreErrno 0, SysPtrace PTRACE_GETREGS 42,
                 LibErr 1 ''ptrace: %d'' [ArgInt 1]],
        kern = ()\<rparr>)"
    using next_getregs_fails [OF w x g] ne by (simp add: ep)
  have w': "wait (scripted_trace (WaitReturns 42 (W_STOPCODE SIGTRAP))
        (Succeeded \<lparr>rip = 0x401000\<rparr>) (Failed EPERM)) (status \<lparr>regs = \<lparr>rip = 7\<rparr>, status = 5\<rparr>) \<lparr>errno = 11, calls = [], kern = ()\<rparr> =
      (Some (42, W_STOPCODE SIGTRAP), \<lparr>errno = 11, calls = [SysWait], kern = ()\<rparr>)"
    by (simp add: wait_def did_def scripted_trace_def)
  have g': "os_getregs (scripted_trace (WaitReturns 42 (W_STOPCODE SIGTRAP))
        (Succeeded \<lparr>rip = 0x401000\<rparr>) (Failed EPERM)) 42 (kern \<lparr>errno = 11, calls = [SysWait], kern = ()\<rparr>) =
      (Succeeded \<lparr>rip = 0x401000\<rparr>, ())"
    by (simp add: scripted_trace_def)
  have t': "os_singlestep (scripted_trace (WaitReturns 42 (W_STOPCODE SIGTRAP))
        (Succeeded \<lparr>rip = 0x401000\<rparr>) (Failed EPERM)) 42 () = (Failed EPERM, ())"
    by (simp add: scripted_trace_def)
  have b: "asmcovtrace_next (scripted_trace (WaitReturns 42 (W_STOPCODE SIGTRAP))
        (Succeeded \<lparr>rip = 0x401000\<rparr>) (Failed EPERM)) 42 \<lparr>regs = \<lparr>rip = 7\<rparr>, status = 5\<rparr> \<lparr>errno = 11, calls = [], kern = ()\<rparr> =
      (Exits 1 \<lparr>d_fmt = ''ptrace: %d'', d_args = [ArgInt 1], d_errno = 1\<rparr>,
       \<lparr>errno = 1,
        calls = [SysWait, StoreErrno 0, SysPtrace PTRACE_GETREGS 42,
                 SysPtrace PTRACE_SINGLESTEP 42, LibErr 1 ''ptrace: %d'' [ArgInt 1]],
        kern = ()\<rparr>)"
    using next_singlestep_fails [OF w' x g' t'] ne by (simp add: ep)
  have f: "os_fork (scripted_spawn (ForkFailed EPERM) (Succeeded ()) (Succeeded ())) (kern \<lparr>errno = 0, calls = [], kern = ()\<rparr>) = (ForkFailed EPERM, ())"
    by (simp add: scripted_spawn_def)
  have c: "fst (asmcovtrace_open (scripted_spawn (ForkFailed EPERM) (Succeeded ()) (Succeeded ())) ''/bin/true'' [''true''] \<lparr>errno = 0, calls = [], kern = ()\<rparr>) =
       Exits 1 \<lparr>d_fmt = ''fork'', d_args = [], d_errno = 1\<rparr>"
    using f by (simp add: open_defs ep)
  show ?thesis
    by (simp add: a b c)
qed



text \<open>
  C8. The result alone does not tell the three outcomes apart. A call that sees the
  normal exit of a child with exit code \<open>c\<close> returns \<open>c\<close>, a number of at most 255, and
  so does a call that finds a child stopped before the instruction at address \<open>c\<close>.
  A call that loses the child to \<^verbatim>\<open>ESRCH\<close> returns 0, which for \<open>c = 0\<close> is also the
  result of the other two.
\<close>

theorem next_result_conflates_outcomes:
  assumes "os_wait K1 (kern s1) = (WaitReturns p1 (W_EXITCODE c), k1)"
    and "os_wait K2 (kern s2) = (WaitReturns p2 st2, k2)" and "\<not> WIFEXITED st2"
    and "os_getregs K2 pid2 k2 = (Succeeded \<lparr>rip = ucast c\<rparr>, k2')"
    and "os_singlestep K2 pid2 k2' = (Succeeded u, k2'')"
    and "os_wait K3 (kern s3) = (WaitReturns p3 st3, k3)" and "\<not> WIFEXITED st3"
    and "os_getregs K3 pid3 k3 = (Failed ESRCH, k3')"
  shows "fst (asmcovtrace_next K1 pid1 fr1 s1) = Return (ucast c)
       \<and> fst (asmcovtrace_next K2 pid2 fr2 s2) = Return (ucast c)
       \<and> unat (ucast c :: 64 word) \<le> 255
       \<and> fst (asmcovtrace_next K3 pid3 fr3 s3) = Return 0
       \<and> (c = 0 \<longrightarrow>
            fst (asmcovtrace_next K1 pid1 fr1 s1) = fst (asmcovtrace_next K3 pid3 fr3 s3)
          \<and> fst (asmcovtrace_next K2 pid2 fr2 s2) = fst (asmcovtrace_next K3 pid3 fr3 s3))"
proof -
  have a: "fst (asmcovtrace_next K1 pid1 fr1 s1) = Return (ucast c)"
    using next_exit_path [OF wait_returns [OF assms(1)] WIFEXITED_W_EXITCODE]
    by (simp add: scast_exit)
  have b: "fst (asmcovtrace_next K2 pid2 fr2 s2) = Return (ucast c)"
    using next_step_path [OF wait_returns [OF assms(2)] assms(3)] assms(4,5) by simp
  have d: "fst (asmcovtrace_next K3 pid3 fr3 s3) = Return 0"
    using next_getregs_fails [OF wait_returns [OF assms(6)] assms(7)] assms(8) by simp
  show ?thesis
    using a b d by (simp add: ucast8_le)
qed

theorem next_result_conflates_outcomes_witness:
  "os_wait linux (kern \<lparr>errno = 11, calls = [], kern = \<lparr>child = 42, tracee = Resumed [] (ExitsWith 0)\<rparr>\<rparr>) =
     (WaitReturns 42 (W_EXITCODE 0), \<lparr>child = 42, tracee = Reaped\<rparr>)
   \<and> os_wait linux (kern \<lparr>errno = 11, calls = [], kern = \<lparr>child = 42, tracee = Resumed [0] (ExitsWith 1)\<rparr>\<rparr>) =
       (WaitReturns 42 (W_STOPCODE SIGTRAP), \<lparr>child = 42, tracee = Stopped 0 [] (ExitsWith 1)\<rparr>)
   \<and> \<not> WIFEXITED (W_STOPCODE SIGTRAP)
   \<and> os_getregs linux 42 \<lparr>child = 42, tracee = Stopped 0 [] (ExitsWith 1)\<rparr> =
       (Succeeded \<lparr>rip = ucast (0 :: 8 word)\<rparr>, \<lparr>child = 42, tracee = Stopped 0 [] (ExitsWith 1)\<rparr>)
   \<and> os_singlestep linux 42 \<lparr>child = 42, tracee = Stopped 0 [] (ExitsWith 1)\<rparr> =
       (Succeeded (), \<lparr>child = 42, tracee = Resumed [] (ExitsWith 1)\<rparr>)
   \<and> os_wait linux (kern \<lparr>errno = 11, calls = [], kern = \<lparr>child = 42, tracee = Resumed [] Killed\<rparr>\<rparr>) =
       (WaitReturns 42 SIGKILL, \<lparr>child = 42, tracee = Reaped\<rparr>)
   \<and> \<not> WIFEXITED SIGKILL
   \<and> os_getregs linux 42 \<lparr>child = 42, tracee = Reaped\<rparr> =
       (Failed ESRCH, \<lparr>child = 42, tracee = Reaped\<rparr>)
   \<and> fst (asmcovtrace_next linux 42 \<lparr>regs = \<lparr>rip = 7\<rparr>, status = 5\<rparr> \<lparr>errno = 11, calls = [], kern = \<lparr>child = 42, tracee = Resumed [] (ExitsWith 0)\<rparr>\<rparr>) = Return 0
   \<and> fst (asmcovtrace_next linux 42 \<lparr>regs = \<lparr>rip = 7\<rparr>, status = 5\<rparr> \<lparr>errno = 11, calls = [], kern = \<lparr>child = 42, tracee = Resumed [0] (ExitsWith 1)\<rparr>\<rparr>) = Return 0
   \<and> fst (asmcovtrace_next linux 42 \<lparr>regs = \<lparr>rip = 7\<rparr>, status = 5\<rparr> \<lparr>errno = 11, calls = [], kern = \<lparr>child = 42, tracee = Resumed [] Killed\<rparr>\<rparr>) = Return 0"
proof -
  have w1: "os_wait linux (kern \<lparr>errno = 11, calls = [], kern = \<lparr>child = 42, tracee = Resumed [] (ExitsWith 0)\<rparr>\<rparr>) =
     (WaitReturns 42 (W_EXITCODE 0), \<lparr>child = 42, tracee = Reaped\<rparr>)"
    by (simp add: linux_defs)
  have w2: "os_wait linux (kern \<lparr>errno = 11, calls = [], kern = \<lparr>child = 42, tracee = Resumed [0] (ExitsWith 1)\<rparr>\<rparr>) =
       (WaitReturns 42 (W_STOPCODE SIGTRAP), \<lparr>child = 42, tracee = Stopped 0 [] (ExitsWith 1)\<rparr>)"
    by (simp add: linux_defs)
  have x2: "\<not> WIFEXITED (W_STOPCODE SIGTRAP)"
    by (rule not_WIFEXITED_W_STOPCODE)
  have g2: "os_getregs linux 42 \<lparr>child = 42, tracee = Stopped 0 [] (ExitsWith 1)\<rparr> =
       (Succeeded \<lparr>rip = ucast (0 :: 8 word)\<rparr>, \<lparr>child = 42, tracee = Stopped 0 [] (ExitsWith 1)\<rparr>)"
    by (simp add: linux_defs)
  have t2: "os_singlestep linux 42 \<lparr>child = 42, tracee = Stopped 0 [] (ExitsWith 1)\<rparr> =
       (Succeeded (), \<lparr>child = 42, tracee = Resumed [] (ExitsWith 1)\<rparr>)"
    by (simp add: linux_defs)
  have w3: "os_wait linux (kern \<lparr>errno = 11, calls = [], kern = \<lparr>child = 42, tracee = Resumed [] Killed\<rparr>\<rparr>) =
       (WaitReturns 42 SIGKILL, \<lparr>child = 42, tracee = Reaped\<rparr>)"
    by (simp add: linux_defs)
  have x3: "\<not> WIFEXITED SIGKILL"
    by (rule not_WIFEXITED_SIGKILL)
  have g3: "os_getregs linux 42 \<lparr>child = 42, tracee = Reaped\<rparr> =
       (Failed ESRCH, \<lparr>child = 42, tracee = Reaped\<rparr>)"
    by (simp add: linux_defs)
  from next_result_conflates_outcomes [OF w1 w2 x2 g2 t2 w3 x3 g3,
      of 42 "\<lparr>regs = \<lparr>rip = 7\<rparr>, status = 5\<rparr>" "\<lparr>regs = \<lparr>rip = 7\<rparr>, status = 5\<rparr>" "\<lparr>regs = \<lparr>rip = 7\<rparr>, status = 5\<rparr>"]
  have "fst (asmcovtrace_next linux 42 \<lparr>regs = \<lparr>rip = 7\<rparr>, status = 5\<rparr> \<lparr>errno = 11, calls = [], kern = \<lparr>child = 42, tracee = Resumed [] (ExitsWith 0)\<rparr>\<rparr>) = Return 0
   \<and> fst (asmcovtrace_next linux 42 \<lparr>regs = \<lparr>rip = 7\<rparr>, status = 5\<rparr> \<lparr>errno = 11, calls = [], kern = \<lparr>child = 42, tracee = Resumed [0] (ExitsWith 1)\<rparr>\<rparr>) = Return 0
   \<and> fst (asmcovtrace_next linux 42 \<lparr>regs = \<lparr>rip = 7\<rparr>, status = 5\<rparr> \<lparr>errno = 11, calls = [], kern = \<lparr>child = 42, tracee = Resumed [] Killed\<rparr>\<rparr>) = Return 0"
    by simp
  then show ?thesis
    using w1 w2 x2 g2 t2 w3 x3 g3 by simp
qed

text \<open>
  C9. Whenever \<^verbatim>\<open>wait\<close> has returned and left a status that is not a normal exit
  (also when the \<^verbatim>\<open>wait\<close> itself failed), the call stores 0 to \<^verbatim>\<open>errno\<close> once, before
  the register read, and the register read comes before anything else. The single-step
  request is made exactly when the register read succeeded. A request that fails with
  \<^verbatim>\<open>ESRCH\<close> makes the result 0, also when it is the single-step request and the
  registers \<open>r\<close> have been read, whatever \<^verbatim>\<open>rip\<close> they hold; when both requests succeed
  \<^verbatim>\<open>errno\<close> is 0 at the return, whatever it was before.
\<close>

theorem next_resets_errno_and_short_circuits:
  assumes "wait K (status fr) s = (Some (rv, st), s1)" and "\<not> WIFEXITED st"
  shows "\<exists>rest. calls (snd (asmcovtrace_next K pid fr s)) =
                  calls s @ [SysWait, StoreErrno 0, SysPtrace PTRACE_GETREGS pid] @ rest
      \<and> StoreErrno 0 \<notin> set rest
      \<and> (SysPtrace PTRACE_SINGLESTEP pid \<in> set rest
           \<longleftrightarrow> (\<exists>r k2. os_getregs K pid (kern s1) = (Succeeded r, k2)))
      \<and> (\<forall>k2. os_getregs K pid (kern s1) = (Failed ESRCH, k2) \<longrightarrow>
             fst (asmcovtrace_next K pid fr s) = Return 0)
      \<and> (\<forall>r k2 k3. os_getregs K pid (kern s1) = (Succeeded r, k2)
                    \<and> os_singlestep K pid k2 = (Failed ESRCH, k3) \<longrightarrow>
             fst (asmcovtrace_next K pid fr s) = Return 0)
      \<and> (\<forall>r k2 u k3. os_getregs K pid (kern s1) = (Succeeded r, k2)
                    \<and> os_singlestep K pid k2 = (Succeeded u, k3) \<longrightarrow>
             errno (snd (asmcovtrace_next K pid fr s)) = 0)"
proof -
  obtain g k2 where g: "os_getregs K pid (kern s1) = (g, k2)"
    by (cases "os_getregs K pid (kern s1)")
  show ?thesis
  proof (cases g)
    case (Failed e)
    with g have gf: "os_getregs K pid (kern s1) = (Failed e, k2)" by simp
    from next_getregs_fails [OF assms gf] gf show ?thesis
      by (cases "e = ESRCH") simp_all
  next
    case (Succeeded r)
    with g have gs: "os_getregs K pid (kern s1) = (Succeeded r, k2)" by simp
    obtain t k3 where t: "os_singlestep K pid k2 = (t, k3)" by (cases "os_singlestep K pid k2")
    show ?thesis
    proof (cases t)
      case (Failed e)
      with t have tf: "os_singlestep K pid k2 = (Failed e, k3)" by simp
      from next_singlestep_fails [OF assms gs tf] gs tf show ?thesis
        by (cases "e = ESRCH") simp_all
    next
      case (Succeeded u)
      with t have ts: "os_singlestep K pid k2 = (Succeeded u, k3)" by simp
      from next_step_path [OF assms gs ts] gs ts show ?thesis
        by simp
    qed
  qed
qed

theorem next_resets_errno_and_short_circuits_witness:
  "wait (scripted_trace (WaitReturns 42 (W_STOPCODE SIGTRAP))
        (Succeeded \<lparr>rip = 0x401000\<rparr>) (Failed ESRCH)) (status \<lparr>regs = \<lparr>rip = 7\<rparr>, status = 5\<rparr>) \<lparr>errno = 11, calls = [], kern = ()\<rparr> =
     (Some (42, W_STOPCODE SIGTRAP), \<lparr>errno = 11, calls = [SysWait], kern = ()\<rparr>)
   \<and> \<not> WIFEXITED (W_STOPCODE SIGTRAP)
   \<and> os_getregs (scripted_trace (WaitReturns 42 (W_STOPCODE SIGTRAP))
        (Succeeded \<lparr>rip = 0x401000\<rparr>) (Failed ESRCH)) 42 (kern \<lparr>errno = 11, calls = [SysWait], kern = ()\<rparr>) =
       (Succeeded \<lparr>rip = 0x401000\<rparr>, ())
   \<and> os_singlestep (scripted_trace (WaitReturns 42 (W_STOPCODE SIGTRAP))
        (Succeeded \<lparr>rip = 0x401000\<rparr>) (Failed ESRCH)) 42 () = (Failed ESRCH, ())
   \<and> fst (asmcovtrace_next (scripted_trace (WaitReturns 42 (W_STOPCODE SIGTRAP))
        (Succeeded \<lparr>rip = 0x401000\<rparr>) (Failed ESRCH)) 42 \<lparr>regs = \<lparr>rip = 7\<rparr>, status = 5\<rparr> \<lparr>errno = 11, calls = [], kern = ()\<rparr>) = Return 0
   \<and> SysPtrace PTRACE_SINGLESTEP 42
        \<in> set (calls (snd (asmcovtrace_next (scripted_trace (WaitReturns 42 (W_STOPCODE SIGTRAP))
        (Succeeded \<lparr>rip = 0x401000\<rparr>) (Failed ESRCH)) 42 \<lparr>regs = \<lparr>rip = 7\<rparr>, status = 5\<rparr> \<lparr>errno = 11, calls = [], kern = ()\<rparr>)))
   \<and> take 3 (calls (snd (asmcovtrace_next (scripted_trace (WaitReturns 42 (W_STOPCODE SIGTRAP))
        (Succeeded \<lparr>rip = 0x401000\<rparr>) (Failed ESRCH)) 42 \<lparr>regs = \<lparr>rip = 7\<rparr>, status = 5\<rparr> \<lparr>errno = 11, calls = [], kern = ()\<rparr>))) =
       [SysWait, StoreErrno 0, SysPtrace PTRACE_GETREGS 42]
   \<and> wait linux (status \<lparr>regs = \<lparr>rip = 7\<rparr>, status = 5\<rparr>) \<lparr>errno = 11, calls = [], kern = \<lparr>child = 42, tracee = Resumed [] Killed\<rparr>\<rparr> =
       (Some (42, SIGKILL), \<lparr>errno = 11, calls = [SysWait], kern = \<lparr>child = 42, tracee = Reaped\<rparr>\<rparr>)
   \<and> \<not> WIFEXITED SIGKILL
   \<and> os_getregs linux 42 (kern \<lparr>errno = 11, calls = [SysWait], kern = \<lparr>child = 42, tracee = Reaped\<rparr>\<rparr>) =
       (Failed ESRCH, \<lparr>child = 42, tracee = Reaped\<rparr>)
   \<and> fst (asmcovtrace_next linux 42 \<lparr>regs = \<lparr>rip = 7\<rparr>, status = 5\<rparr> \<lparr>errno = 11, calls = [], kern = \<lparr>child = 42, tracee = Resumed [] Killed\<rparr>\<rparr>) = Return 0
   \<and> SysPtrace PTRACE_SINGLESTEP 42
        \<notin> set (calls (snd (asmcovtrace_next linux 42 \<lparr>regs = \<lparr>rip = 7\<rparr>, status = 5\<rparr> \<lparr>errno = 11, calls = [], kern = \<lparr>child = 42, tracee = Resumed [] Killed\<rparr>\<rparr>)))
   \<and> wait linux (status \<lparr>regs = \<lparr>rip = 7\<rparr>, status = 5\<rparr>) \<lparr>errno = 11, calls = [], kern = \<lparr>child = 42, tracee = Resumed [0x401000, 0x401004] (ExitsWith 0)\<rparr>\<rparr> =
       (Some (42, W_STOPCODE SIGTRAP), \<lparr>errno = 11, calls = [SysWait], kern = \<lparr>child = 42, tracee = Stopped 0x401000 [0x401004] (ExitsWith 0)\<rparr>\<rparr>)
   \<and> os_getregs linux 42 (kern \<lparr>errno = 11, calls = [SysWait], kern = \<lparr>child = 42, tracee = Stopped 0x401000 [0x401004] (ExitsWith 0)\<rparr>\<rparr>) =
       (Succeeded \<lparr>rip = 0x401000\<rparr>, \<lparr>child = 42, tracee = Stopped 0x401000 [0x401004] (ExitsWith 0)\<rparr>)
   \<and> os_singlestep linux 42 \<lparr>child = 42, tracee = Stopped 0x401000 [0x401004] (ExitsWith 0)\<rparr> =
       (Succeeded (), \<lparr>child = 42, tracee = Resumed [0x401004] (ExitsWith 0)\<rparr>)
   \<and> errno (snd (asmcovtrace_next linux 42 \<lparr>regs = \<lparr>rip = 7\<rparr>, status = 5\<rparr> \<lparr>errno = 11, calls = [], kern = \<lparr>child = 42, tracee = Resumed [0x401000, 0x401004] (ExitsWith 0)\<rparr>\<rparr>)) = 0"
proof -
  have x: "\<not> WIFEXITED (W_STOPCODE SIGTRAP)"
    by (rule not_WIFEXITED_W_STOPCODE)
  have w: "wait (scripted_trace (WaitReturns 42 (W_STOPCODE SIGTRAP))
        (Succeeded \<lparr>rip = 0x401000\<rparr>) (Failed ESRCH)) (status \<lparr>regs = \<lparr>rip = 7\<rparr>, status = 5\<rparr>) \<lparr>errno = 11, calls = [], kern = ()\<rparr> =
     (Some (42, W_STOPCODE SIGTRAP), \<lparr>errno = 11, calls = [SysWait], kern = ()\<rparr>)"
    by (simp add: wait_def did_def scripted_trace_def)
  have g: "os_getregs (scripted_trace (WaitReturns 42 (W_STOPCODE SIGTRAP))
        (Succeeded \<lparr>rip = 0x401000\<rparr>) (Failed ESRCH)) 42 (kern \<lparr>errno = 11, calls = [SysWait], kern = ()\<rparr>) =
       (Succeeded \<lparr>rip = 0x401000\<rparr>, ())"
    by (simp add: scripted_trace_def)
  have t: "os_singlestep (scripted_trace (WaitReturns 42 (W_STOPCODE SIGTRAP))
        (Succeeded \<lparr>rip = 0x401000\<rparr>) (Failed ESRCH)) 42 () = (Failed ESRCH, ())"
    by (simp add: scripted_trace_def)
  from next_resets_errno_and_short_circuits [OF w x, of 42]
  obtain rest where r:
    "calls (snd (asmcovtrace_next (scripted_trace (WaitReturns 42 (W_STOPCODE SIGTRAP))
        (Succeeded \<lparr>rip = 0x401000\<rparr>) (Failed ESRCH)) 42 \<lparr>regs = \<lparr>rip = 7\<rparr>, status = 5\<rparr> \<lparr>errno = 11, calls = [], kern = ()\<rparr>)) =
       calls \<lparr>errno = 11, calls = [], kern = ()\<rparr> @ [SysWait, StoreErrno 0, SysPtrace PTRACE_GETREGS 42] @ rest"
    "SysPtrace PTRACE_SINGLESTEP 42 \<in> set rest
       \<longleftrightarrow> (\<exists>r k2. os_getregs (scripted_trace (WaitReturns 42 (W_STOPCODE SIGTRAP))
        (Succeeded \<lparr>rip = 0x401000\<rparr>) (Failed ESRCH)) 42 (kern \<lparr>errno = 11, calls = [SysWait], kern = ()\<rparr>) = (Succeeded r, k2))"
    "\<forall>r k2 k3. os_getregs (scripted_trace (WaitReturns 42 (W_STOPCODE SIGTRAP))
        (Succeeded \<lparr>rip = 0x401000\<rparr>) (Failed ESRCH)) 42 (kern \<lparr>errno = 11, calls = [SysWait], kern = ()\<rparr>) = (Succeeded r, k2)
         \<and> os_singlestep (scripted_trace (WaitReturns 42 (W_STOPCODE SIGTRAP))
        (Succeeded \<lparr>rip = 0x401000\<rparr>) (Failed ESRCH)) 42 k2 = (Failed ESRCH, k3)
       \<longrightarrow> fst (asmcovtrace_next (scripted_trace (WaitReturns 42 (W_STOPCODE SIGTRAP))
        (Succeeded \<lparr>rip = 0x401000\<rparr>) (Failed ESRCH)) 42 \<lparr>regs = \<lparr>rip = 7\<rparr>, status = 5\<rparr> \<lparr>errno = 11, calls = [], kern = ()\<rparr>) = Return 0"
    by blast
  from r(2) g have "SysPtrace PTRACE_SINGLESTEP 42 \<in> set rest" by blast
  with r(1) have a1: "SysPtrace PTRACE_SINGLESTEP 42
        \<in> set (calls (snd (asmcovtrace_next (scripted_trace (WaitReturns 42 (W_STOPCODE SIGTRAP))
        (Succeeded \<lparr>rip = 0x401000\<rparr>) (Failed ESRCH)) 42 \<lparr>regs = \<lparr>rip = 7\<rparr>, status = 5\<rparr> \<lparr>errno = 11, calls = [], kern = ()\<rparr>)))"
    and a2: "take 3 (calls (snd (asmcovtrace_next (scripted_trace (WaitReturns 42 (W_STOPCODE SIGTRAP))
        (Succeeded \<lparr>rip = 0x401000\<rparr>) (Failed ESRCH)) 42 \<lparr>regs = \<lparr>rip = 7\<rparr>, status = 5\<rparr> \<lparr>errno = 11, calls = [], kern = ()\<rparr>))) =
       [SysWait, StoreErrno 0, SysPtrace PTRACE_GETREGS 42]"
    by simp_all
  from r(3) g t have a3: "fst (asmcovtrace_next (scripted_trace (WaitReturns 42 (W_STOPCODE SIGTRAP))
        (Succeeded \<lparr>rip = 0x401000\<rparr>) (Failed ESRCH)) 42 \<lparr>regs = \<lparr>rip = 7\<rparr>, status = 5\<rparr> \<lparr>errno = 11, calls = [], kern = ()\<rparr>) = Return 0"
    by blast
  have x': "\<not> WIFEXITED SIGKILL"
    by (rule not_WIFEXITED_SIGKILL)
  have w': "wait linux (status \<lparr>regs = \<lparr>rip = 7\<rparr>, status = 5\<rparr>) \<lparr>errno = 11, calls = [], kern = \<lparr>child = 42, tracee = Resumed [] Killed\<rparr>\<rparr> =
       (Some (42, SIGKILL), \<lparr>errno = 11, calls = [SysWait], kern = \<lparr>child = 42, tracee = Reaped\<rparr>\<rparr>)"
    by (simp add: wait_def did_def linux_defs)
  have g': "os_getregs linux 42 (kern \<lparr>errno = 11, calls = [SysWait], kern = \<lparr>child = 42, tracee = Reaped\<rparr>\<rparr>) =
       (Failed ESRCH, \<lparr>child = 42, tracee = Reaped\<rparr>)"
    by (simp add: linux_defs)
  from next_resets_errno_and_short_circuits [OF w' x', of 42]
  obtain rest' where r':
    "calls (snd (asmcovtrace_next linux 42 \<lparr>regs = \<lparr>rip = 7\<rparr>, status = 5\<rparr> \<lparr>errno = 11, calls = [], kern = \<lparr>child = 42, tracee = Resumed [] Killed\<rparr>\<rparr>)) =
       calls \<lparr>errno = 11, calls = [], kern = \<lparr>child = 42, tracee = Resumed [] Killed\<rparr>\<rparr> @ [SysWait, StoreErrno 0, SysPtrace PTRACE_GETREGS 42] @ rest'"
    "SysPtrace PTRACE_SINGLESTEP 42 \<in> set rest'
       \<longleftrightarrow> (\<exists>r k2. os_getregs linux 42 (kern \<lparr>errno = 11, calls = [SysWait], kern = \<lparr>child = 42, tracee = Reaped\<rparr>\<rparr>) = (Succeeded r, k2))"
    "\<forall>k2. os_getregs linux 42 (kern \<lparr>errno = 11, calls = [SysWait], kern = \<lparr>child = 42, tracee = Reaped\<rparr>\<rparr>) = (Failed ESRCH, k2)
       \<longrightarrow> fst (asmcovtrace_next linux 42 \<lparr>regs = \<lparr>rip = 7\<rparr>, status = 5\<rparr> \<lparr>errno = 11, calls = [], kern = \<lparr>child = 42, tracee = Resumed [] Killed\<rparr>\<rparr>) = Return 0"
    by blast
  from r'(2) g' have "SysPtrace PTRACE_SINGLESTEP 42 \<notin> set rest'" by simp
  with r'(1) have b1: "SysPtrace PTRACE_SINGLESTEP 42
        \<notin> set (calls (snd (asmcovtrace_next linux 42 \<lparr>regs = \<lparr>rip = 7\<rparr>, status = 5\<rparr> \<lparr>errno = 11, calls = [], kern = \<lparr>child = 42, tracee = Resumed [] Killed\<rparr>\<rparr>)))"
    by simp
  from r'(3) g' have b2: "fst (asmcovtrace_next linux 42 \<lparr>regs = \<lparr>rip = 7\<rparr>, status = 5\<rparr> \<lparr>errno = 11, calls = [], kern = \<lparr>child = 42, tracee = Resumed [] Killed\<rparr>\<rparr>) = Return 0"
    by blast
  have w'': "wait linux (status \<lparr>regs = \<lparr>rip = 7\<rparr>, status = 5\<rparr>) \<lparr>errno = 11, calls = [], kern = \<lparr>child = 42, tracee = Resumed [0x401000, 0x401004] (ExitsWith 0)\<rparr>\<rparr> =
       (Some (42, W_STOPCODE SIGTRAP), \<lparr>errno = 11, calls = [SysWait], kern = \<lparr>child = 42, tracee = Stopped 0x401000 [0x401004] (ExitsWith 0)\<rparr>\<rparr>)"
    by (simp add: wait_def did_def linux_defs)
  have g'': "os_getregs linux 42 (kern \<lparr>errno = 11, calls = [SysWait], kern = \<lparr>child = 42, tracee = Stopped 0x401000 [0x401004] (ExitsWith 0)\<rparr>\<rparr>) =
       (Succeeded \<lparr>rip = 0x401000\<rparr>, \<lparr>child = 42, tracee = Stopped 0x401000 [0x401004] (ExitsWith 0)\<rparr>)"
    by (simp add: linux_defs)
  have t'': "os_singlestep linux 42 \<lparr>child = 42, tracee = Stopped 0x401000 [0x401004] (ExitsWith 0)\<rparr> =
       (Succeeded (), \<lparr>child = 42, tracee = Resumed [0x401004] (ExitsWith 0)\<rparr>)"
    by (simp add: linux_defs)
  from next_resets_errno_and_short_circuits [OF w'' x, of 42] g'' t''
  have c1: "errno (snd (asmcovtrace_next linux 42 \<lparr>regs = \<lparr>rip = 7\<rparr>, status = 5\<rparr> \<lparr>errno = 11, calls = [], kern = \<lparr>child = 42, tracee = Resumed [0x401000, 0x401004] (ExitsWith 0)\<rparr>\<rparr>)) = 0"
    by blast
  show ?thesis
    using x w g t a1 a2 a3 x' w' g' b1 b2 w'' g'' t'' c1 by simp
qed

section \<open>The paths through \<^verbatim>\<open>asmcovtrace_open\<close>\<close>

lemma open_fork_fails:
  assumes "os_fork K (kern s) = (ForkFailed e, k1)"
  shows "asmcovtrace_open K path argv s =
           (Exits 1 \<lparr>d_fmt = ''fork'', d_args = [], d_errno = e\<rparr>,
            s\<lparr>errno := e, calls := calls s @ [SysFork, LibErr 1 ''fork'' []], kern := k1\<rparr>)"
  using assms by (simp add: open_defs)

lemma open_parent_path:
  assumes "os_fork K (kern s) = (ForkParent p, k1)" and "p \<noteq> - 1" and "p \<noteq> 0"
  shows "asmcovtrace_open K path argv s =
           (Return p, s\<lparr>calls := calls s @ [SysFork], kern := k1\<rparr>)"
  using assms by (simp add: open_defs)

lemma open_traceme_fails:
  assumes "os_fork K (kern s) = (ForkChild, k1)" and "os_traceme K k1 = (Failed e, k2)"
  shows "asmcovtrace_open K path argv s =
           (Exits 1 \<lparr>d_fmt = ''ptrace'', d_args = [], d_errno = e\<rparr>,
            s\<lparr>errno := e,
              calls := calls s @ [SysFork, SysPtrace PTRACE_TRACEME 0, LibErr 1 ''ptrace'' []],
              kern := k2\<rparr>)"
  using assms by (simp add: open_defs)

lemma open_execve_fails:
  assumes "os_fork K (kern s) = (ForkChild, k1)" and "os_traceme K k1 = (Succeeded u, k2)"
    and "os_execve K path argv k2 = (Failed e, k3)"
  shows "asmcovtrace_open K path argv s =
           (Exits 1 \<lparr>d_fmt = ''exec: %s'', d_args = [ArgStr path], d_errno = e\<rparr>,
            s\<lparr>errno := e,
              calls := calls s @ [SysFork, SysPtrace PTRACE_TRACEME 0, SysExecve path argv,
                                  LibErr 1 ''exec: %s'' [ArgStr path]],
              kern := k3\<rparr>)"
  using assms by (simp add: open_defs)

lemma open_execve_replaces:
  assumes "os_fork K (kern s) = (ForkChild, k1)" and "os_traceme K k1 = (Succeeded u, k2)"
    and "os_execve K path argv k2 = (Succeeded u', k3)"
  shows "asmcovtrace_open K path argv s =
           (Replaced path argv,
            s\<lparr>calls := calls s @ [SysFork, SysPtrace PTRACE_TRACEME 0, SysExecve path argv],
              kern := k3\<rparr>)"
  using assms by (simp add: open_defs)

lemma open_child_never_returns:
  assumes "os_fork K (kern s) = (ForkChild, k1)"
  shows "(\<exists>d. fst (asmcovtrace_open K path argv s) = Exits 1 d)
       \<or> fst (asmcovtrace_open K path argv s) = Replaced path argv"
proof -
  obtain t k2 where t: "os_traceme K k1 = (t, k2)" by (cases "os_traceme K k1")
  obtain x k3 where x: "os_execve K path argv k2 = (x, k3)"
    by (cases "os_execve K path argv k2")
  show ?thesis
    using assms t x by (cases t; cases x) (simp_all add: open_defs)
qed

section \<open>The claims about \<^verbatim>\<open>asmcovtrace_open\<close>\<close>

text \<open>
  C5. When \<^verbatim>\<open>fork\<close> fails, \<^verbatim>\<open>asmcovtrace_open\<close> ends in \<^verbatim>\<open>err(1, "fork")\<close>: the
  process exits with status 1 and a diagnostic, right after the one \<^verbatim>\<open>fork\<close>. When
  \<^verbatim>\<open>execve\<close> fails, the process that called it, which is the child, ends in
  \<^verbatim>\<open>err(1, "exec: %s", path)\<close> right after the one \<^verbatim>\<open>execve\<close>: it exits with status 1
  and a diagnostic that names the path. In both cases the failed call is the last system
  call made: nothing is tried again.
\<close>

theorem open_setup_failure_is_fatal:
  "(os_fork K (kern s) = (ForkFailed e, k1) \<longrightarrow>
      asmcovtrace_open K path argv s =
        (Exits 1 \<lparr>d_fmt = ''fork'', d_args = [], d_errno = e\<rparr>,
         s\<lparr>errno := e, calls := calls s @ [SysFork, LibErr 1 ''fork'' []], kern := k1\<rparr>))
   \<and> (os_fork K (kern s) = (ForkChild, k1) \<and> os_traceme K k1 = (Succeeded u, k2)
        \<and> os_execve K path argv k2 = (Failed e, k3) \<longrightarrow>
      asmcovtrace_open K path argv s =
        (Exits 1 \<lparr>d_fmt = ''exec: %s'', d_args = [ArgStr path], d_errno = e\<rparr>,
         s\<lparr>errno := e,
           calls := calls s @ [SysFork, SysPtrace PTRACE_TRACEME 0, SysExecve path argv,
                               LibErr 1 ''exec: %s'' [ArgStr path]],
           kern := k3\<rparr>))"
proof (intro conjI impI)
  assume "os_fork K (kern s) = (ForkFailed e, k1)"
  then show "asmcovtrace_open K path argv s =
        (Exits 1 \<lparr>d_fmt = ''fork'', d_args = [], d_errno = e\<rparr>,
         s\<lparr>errno := e, calls := calls s @ [SysFork, LibErr 1 ''fork'' []], kern := k1\<rparr>)"
    by (rule open_fork_fails)
next
  assume "os_fork K (kern s) = (ForkChild, k1) \<and> os_traceme K k1 = (Succeeded u, k2)
        \<and> os_execve K path argv k2 = (Failed e, k3)"
  then have "os_fork K (kern s) = (ForkChild, k1)" "os_traceme K k1 = (Succeeded u, k2)"
    "os_execve K path argv k2 = (Failed e, k3)"
    by simp_all
  then show "asmcovtrace_open K path argv s =
        (Exits 1 \<lparr>d_fmt = ''exec: %s'', d_args = [ArgStr path], d_errno = e\<rparr>,
         s\<lparr>errno := e,
           calls := calls s @ [SysFork, SysPtrace PTRACE_TRACEME 0, SysExecve path argv,
                               LibErr 1 ''exec: %s'' [ArgStr path]],
           kern := k3\<rparr>)"
    by (rule open_execve_fails)
qed

theorem open_setup_failure_is_fatal_witness:
  "os_fork (scripted_spawn (ForkFailed EAGAIN) (Succeeded ()) (Succeeded ())) () =
     (ForkFailed EAGAIN, ())
   \<and> asmcovtrace_open (scripted_spawn (ForkFailed EAGAIN) (Succeeded ()) (Succeeded ()))
        ''/bin/true'' [''true''] \<lparr>errno = 0, calls = [], kern = ()\<rparr> =
       (Exits 1 \<lparr>d_fmt = ''fork'', d_args = [], d_errno = 11\<rparr>,
        \<lparr>errno = 11, calls = [SysFork, LibErr 1 ''fork'' []], kern = ()\<rparr>)
   \<and> os_fork (scripted_spawn ForkChild (Succeeded ()) (Failed ENOENT)) () = (ForkChild, ())
   \<and> os_traceme (scripted_spawn ForkChild (Succeeded ()) (Failed ENOENT)) () = (Succeeded (), ())
   \<and> os_execve (scripted_spawn ForkChild (Succeeded ()) (Failed ENOENT))
        ''/bin/none'' [''none''] () = (Failed ENOENT, ())
   \<and> asmcovtrace_open (scripted_spawn ForkChild (Succeeded ()) (Failed ENOENT))
        ''/bin/none'' [''none''] \<lparr>errno = 0, calls = [], kern = ()\<rparr> =
       (Exits 1 \<lparr>d_fmt = ''exec: %s'', d_args = [ArgStr ''/bin/none''], d_errno = 2\<rparr>,
        \<lparr>errno = 2,
         calls = [SysFork, SysPtrace PTRACE_TRACEME 0, SysExecve ''/bin/none'' [''none''],
                  LibErr 1 ''exec: %s'' [ArgStr ''/bin/none'']],
         kern = ()\<rparr>)"
proof -
  have f: "os_fork (scripted_spawn (ForkFailed EAGAIN) (Succeeded ()) (Succeeded ()))
             (kern \<lparr>errno = 0, calls = [], kern = ()\<rparr>) = (ForkFailed EAGAIN, ())"
    by (simp add: scripted_spawn_def)
  have a: "asmcovtrace_open (scripted_spawn (ForkFailed EAGAIN) (Succeeded ()) (Succeeded ()))
        ''/bin/true'' [''true''] \<lparr>errno = 0, calls = [], kern = ()\<rparr> =
       (Exits 1 \<lparr>d_fmt = ''fork'', d_args = [], d_errno = 11\<rparr>,
        \<lparr>errno = 11, calls = [SysFork, LibErr 1 ''fork'' []], kern = ()\<rparr>)"
    using open_setup_failure_is_fatal [THEN conjunct1, THEN mp, OF f, of "''/bin/true''" "[''true'']"]
    by (simp add: EAGAIN_def)
  have c: "os_fork (scripted_spawn ForkChild (Succeeded ()) (Failed ENOENT)) (kern \<lparr>errno = 0, calls = [], kern = ()\<rparr>) =
             (ForkChild, ())
     \<and> os_traceme (scripted_spawn ForkChild (Succeeded ()) (Failed ENOENT)) () = (Succeeded (), ())
     \<and> os_execve (scripted_spawn ForkChild (Succeeded ()) (Failed ENOENT))
          ''/bin/none'' [''none''] () = (Failed ENOENT, ())"
    by (simp add: scripted_spawn_def)
  have b: "asmcovtrace_open (scripted_spawn ForkChild (Succeeded ()) (Failed ENOENT))
        ''/bin/none'' [''none''] \<lparr>errno = 0, calls = [], kern = ()\<rparr> =
       (Exits 1 \<lparr>d_fmt = ''exec: %s'', d_args = [ArgStr ''/bin/none''], d_errno = 2\<rparr>,
        \<lparr>errno = 2,
         calls = [SysFork, SysPtrace PTRACE_TRACEME 0, SysExecve ''/bin/none'' [''none''],
                  LibErr 1 ''exec: %s'' [ArgStr ''/bin/none'']],
         kern = ()\<rparr>)"
    using open_setup_failure_is_fatal [THEN conjunct2, THEN mp, OF c]
    by (simp add: ENOENT_def)
  show ?thesis
    using f a c b by simp
qed

text \<open>
  C6. In the child of a successful \<^verbatim>\<open>fork\<close> the first call is
  \<^verbatim>\<open>ptrace(PTRACE_TRACEME, 0, NULL, NULL)\<close>. When it succeeds the next call is the one
  \<^verbatim>\<open>execve\<close> of the target, which the kernel answers in the state \<open>k2\<close> that the trace
  request has left: the image is replaced in a process that is already traced, which is
  what lets the parent see the target from its first instruction. When the trace request
  fails the child ends in \<^verbatim>\<open>err(1, "ptrace")\<close> and no \<^verbatim>\<open>execve\<close> is made.
\<close>

theorem open_child_traceme_before_execve:
  assumes "os_fork K (kern s) = (ForkChild, k1)"
  shows "(\<forall>u k2. os_traceme K k1 = (Succeeded u, k2) \<longrightarrow>
            (\<exists>rest. calls (snd (asmcovtrace_open K path argv s)) =
                      calls s @ [SysFork, SysPtrace PTRACE_TRACEME 0, SysExecve path argv] @ rest
                  \<and> (\<forall>p a. SysExecve p a \<notin> set rest)
                  \<and> kern (snd (asmcovtrace_open K path argv s)) = snd (os_execve K path argv k2)))
       \<and> (\<forall>e k2. os_traceme K k1 = (Failed e, k2) \<longrightarrow>
            asmcovtrace_open K path argv s =
              (Exits 1 \<lparr>d_fmt = ''ptrace'', d_args = [], d_errno = e\<rparr>,
               s\<lparr>errno := e,
                 calls := calls s @ [SysFork, SysPtrace PTRACE_TRACEME 0, LibErr 1 ''ptrace'' []],
                 kern := k2\<rparr>))"
proof (intro conjI allI impI)
  fix u k2
  assume t: "os_traceme K k1 = (Succeeded u, k2)"
  obtain x k3 where x: "os_execve K path argv k2 = (x, k3)"
    by (cases "os_execve K path argv k2")
  show "\<exists>rest. calls (snd (asmcovtrace_open K path argv s)) =
                 calls s @ [SysFork, SysPtrace PTRACE_TRACEME 0, SysExecve path argv] @ rest
             \<and> (\<forall>p a. SysExecve p a \<notin> set rest)
             \<and> kern (snd (asmcovtrace_open K path argv s)) = snd (os_execve K path argv k2)"
  proof (cases x)
    case (Failed e)
    with x have "os_execve K path argv k2 = (Failed e, k3)" by simp
    from open_execve_fails [OF assms t this] x show ?thesis by simp
  next
    case (Succeeded u')
    with x have "os_execve K path argv k2 = (Succeeded u', k3)" by simp
    from open_execve_replaces [OF assms t this] x show ?thesis by simp
  qed
next
  fix e k2
  assume "os_traceme K k1 = (Failed e, k2)"
  with assms show "asmcovtrace_open K path argv s =
              (Exits 1 \<lparr>d_fmt = ''ptrace'', d_args = [], d_errno = e\<rparr>,
               s\<lparr>errno := e,
                 calls := calls s @ [SysFork, SysPtrace PTRACE_TRACEME 0, LibErr 1 ''ptrace'' []],
                 kern := k2\<rparr>)"
    by (rule open_traceme_fails)
qed

theorem open_child_traceme_before_execve_witness:
  "os_fork (scripted_spawn ForkChild (Succeeded ()) (Succeeded ())) () = (ForkChild, ())
   \<and> os_traceme (scripted_spawn ForkChild (Succeeded ()) (Succeeded ())) () = (Succeeded (), ())
   \<and> take 3 (calls (snd (asmcovtrace_open (scripted_spawn ForkChild (Succeeded ()) (Succeeded ())) ''/bin/true'' [''true''] \<lparr>errno = 0, calls = [], kern = ()\<rparr>))) =
       [SysFork, SysPtrace PTRACE_TRACEME 0, SysExecve ''/bin/true'' [''true'']]
   \<and> os_fork (scripted_spawn ForkChild (Failed EPERM) (Succeeded ())) () = (ForkChild, ())
   \<and> os_traceme (scripted_spawn ForkChild (Failed EPERM) (Succeeded ())) () = (Failed EPERM, ())
   \<and> asmcovtrace_open (scripted_spawn ForkChild (Failed EPERM) (Succeeded ())) ''/bin/true'' [''true''] \<lparr>errno = 0, calls = [], kern = ()\<rparr> =
       (Exits 1 \<lparr>d_fmt = ''ptrace'', d_args = [], d_errno = 1\<rparr>,
        \<lparr>errno = 1, calls = [SysFork, SysPtrace PTRACE_TRACEME 0, LibErr 1 ''ptrace'' []],
         kern = ()\<rparr>)"
proof -
  have f: "os_fork (scripted_spawn ForkChild (Succeeded ()) (Succeeded ())) (kern \<lparr>errno = 0, calls = [], kern = ()\<rparr>) = (ForkChild, ())"
    by (simp add: scripted_spawn_def)
  have t: "os_traceme (scripted_spawn ForkChild (Succeeded ()) (Succeeded ())) () = (Succeeded (), ())"
    by (simp add: scripted_spawn_def)
  from open_child_traceme_before_execve [OF f, of "''/bin/true''" "[''true'']"] t
  obtain rest where
    "calls (snd (asmcovtrace_open (scripted_spawn ForkChild (Succeeded ()) (Succeeded ())) ''/bin/true'' [''true''] \<lparr>errno = 0, calls = [], kern = ()\<rparr>)) =
       calls \<lparr>errno = 0, calls = [], kern = ()\<rparr> @ [SysFork, SysPtrace PTRACE_TRACEME 0, SysExecve ''/bin/true'' [''true'']] @ rest"
    by blast
  then have a: "take 3 (calls (snd (asmcovtrace_open (scripted_spawn ForkChild (Succeeded ()) (Succeeded ())) ''/bin/true'' [''true''] \<lparr>errno = 0, calls = [], kern = ()\<rparr>))) =
       [SysFork, SysPtrace PTRACE_TRACEME 0, SysExecve ''/bin/true'' [''true'']]"
    by simp
  have f': "os_fork (scripted_spawn ForkChild (Failed EPERM) (Succeeded ())) (kern \<lparr>errno = 0, calls = [], kern = ()\<rparr>) = (ForkChild, ())"
    by (simp add: scripted_spawn_def)
  have t': "os_traceme (scripted_spawn ForkChild (Failed EPERM) (Succeeded ())) () = (Failed EPERM, ())"
    by (simp add: scripted_spawn_def)
  from open_child_traceme_before_execve [OF f', of "''/bin/true''" "[''true'']"] t'
  have "asmcovtrace_open (scripted_spawn ForkChild (Failed EPERM) (Succeeded ())) ''/bin/true'' [''true''] \<lparr>errno = 0, calls = [], kern = ()\<rparr> =
       (Exits 1 \<lparr>d_fmt = ''ptrace'', d_args = [], d_errno = EPERM\<rparr>,
        \<lparr>errno = 0, calls = [], kern = ()\<rparr>\<lparr>errno := EPERM,
          calls := calls \<lparr>errno = 0, calls = [], kern = ()\<rparr> @ [SysFork, SysPtrace PTRACE_TRACEME 0, LibErr 1 ''ptrace'' []],
          kern := ()\<rparr>)"
    by blast
  then have b: "asmcovtrace_open (scripted_spawn ForkChild (Failed EPERM) (Succeeded ())) ''/bin/true'' [''true''] \<lparr>errno = 0, calls = [], kern = ()\<rparr> =
       (Exits 1 \<lparr>d_fmt = ''ptrace'', d_args = [], d_errno = 1\<rparr>,
        \<lparr>errno = 1, calls = [SysFork, SysPtrace PTRACE_TRACEME 0, LibErr 1 ''ptrace'' []],
         kern = ()\<rparr>)"
    by (simp add: EPERM_def)
  show ?thesis
    using f t a f' t' b by simp
qed

text \<open>
  C10. Given a \<^verbatim>\<open>fork\<close> that keeps its promise of a positive process identifier for
  the parent: when \<^verbatim>\<open>asmcovtrace_open\<close> returns a value, the \<^verbatim>\<open>fork\<close> has answered as
  to a parent, the value is the identifier it gave, a positive number, and the \<^verbatim>\<open>fork\<close>
  is the only call made; the parent always gets this return. When the \<^verbatim>\<open>fork\<close> fails
  the function ends in \<^verbatim>\<open>err\<close>, and in the child it ends in \<^verbatim>\<open>err\<close> or in the
  replaced image: neither returns.
\<close>

theorem open_returns_only_in_parent:
  assumes "fork_contract (fst (os_fork K (kern s)))"
  shows "(\<forall>v. fst (asmcovtrace_open K path argv s) = Return v \<longrightarrow>
            fst (os_fork K (kern s)) = ForkParent v \<and> 0 < v
          \<and> snd (asmcovtrace_open K path argv s) =
              s\<lparr>calls := calls s @ [SysFork], kern := snd (os_fork K (kern s))\<rparr>)
       \<and> (\<forall>p. fst (os_fork K (kern s)) = ForkParent p \<longrightarrow>
            fst (asmcovtrace_open K path argv s) = Return p)
       \<and> (\<forall>e. fst (os_fork K (kern s)) = ForkFailed e \<longrightarrow>
            fst (asmcovtrace_open K path argv s) =
              Exits 1 \<lparr>d_fmt = ''fork'', d_args = [], d_errno = e\<rparr>)
       \<and> (fst (os_fork K (kern s)) = ForkChild \<longrightarrow>
            (\<exists>d. fst (asmcovtrace_open K path argv s) = Exits 1 d)
          \<or> fst (asmcovtrace_open K path argv s) = Replaced path argv)"
proof -
  obtain a k1 where f: "os_fork K (kern s) = (a, k1)" by (cases "os_fork K (kern s)")
  show ?thesis
  proof (cases a)
    case (ForkFailed e)
    with f have "os_fork K (kern s) = (ForkFailed e, k1)" by simp
    from open_fork_fails [OF this, of path argv] f ForkFailed show ?thesis by simp
  next
    case ForkChild
    with f have c: "os_fork K (kern s) = (ForkChild, k1)" by simp
    from open_child_never_returns [OF c, of path argv] f ForkChild show ?thesis by auto
  next
    case (ForkParent p)
    with f assms have pos: "0 < p" by (simp add: fork_contract_def)
    from f ForkParent have "os_fork K (kern s) = (ForkParent p, k1)" by simp
    from open_parent_path [OF this, of path argv] pos f ForkParent show ?thesis by auto
  qed
qed

theorem open_returns_only_in_parent_witness:
  "fork_contract (fst (os_fork (scripted_spawn (ForkParent 4242) (Succeeded ()) (Succeeded ())) ()))
   \<and> fst (os_fork (scripted_spawn (ForkParent 4242) (Succeeded ()) (Succeeded ())) ()) = ForkParent 4242
   \<and> asmcovtrace_open (scripted_spawn (ForkParent 4242) (Succeeded ()) (Succeeded ())) ''/bin/true'' [''true''] \<lparr>errno = 0, calls = [], kern = ()\<rparr> =
       (Return 4242, \<lparr>errno = 0, calls = [SysFork], kern = ()\<rparr>)
   \<and> fork_contract (fst (os_fork (scripted_spawn (ForkFailed EAGAIN) (Succeeded ()) (Succeeded ())) ()))
   \<and> fst (os_fork (scripted_spawn (ForkFailed EAGAIN) (Succeeded ()) (Succeeded ())) ()) = ForkFailed EAGAIN
   \<and> fst (asmcovtrace_open (scripted_spawn (ForkFailed EAGAIN) (Succeeded ()) (Succeeded ())) ''/bin/true'' [''true''] \<lparr>errno = 0, calls = [], kern = ()\<rparr>) =
       Exits 1 \<lparr>d_fmt = ''fork'', d_args = [], d_errno = 11\<rparr>
   \<and> fork_contract (fst (os_fork (scripted_spawn ForkChild (Succeeded ()) (Succeeded ())) ()))
   \<and> fst (os_fork (scripted_spawn ForkChild (Succeeded ()) (Succeeded ())) ()) = ForkChild
   \<and> fst (asmcovtrace_open (scripted_spawn ForkChild (Succeeded ()) (Succeeded ())) ''/bin/true'' [''true''] \<lparr>errno = 0, calls = [], kern = ()\<rparr>) =
       Replaced ''/bin/true'' [''true'']"
proof -
  have p: "fork_contract (fst (os_fork (scripted_spawn (ForkParent 4242) (Succeeded ()) (Succeeded ())) (kern \<lparr>errno = 0, calls = [], kern = ()\<rparr>)))"
    "fst (os_fork (scripted_spawn (ForkParent 4242) (Succeeded ()) (Succeeded ())) (kern \<lparr>errno = 0, calls = [], kern = ()\<rparr>)) = ForkParent 4242"
    by (simp_all add: scripted_spawn_def fork_contract_def)
  note u = open_returns_only_in_parent [OF p(1), of "''/bin/true''" "[''true'']"]
  from u p(2) have r: "fst (asmcovtrace_open (scripted_spawn (ForkParent 4242) (Succeeded ()) (Succeeded ())) ''/bin/true'' [''true''] \<lparr>errno = 0, calls = [], kern = ()\<rparr>) = Return 4242"
    by blast
  with u have "snd (asmcovtrace_open (scripted_spawn (ForkParent 4242) (Succeeded ()) (Succeeded ())) ''/bin/true'' [''true''] \<lparr>errno = 0, calls = [], kern = ()\<rparr>) =
      \<lparr>errno = 0, calls = [], kern = ()\<rparr>\<lparr>calls := calls \<lparr>errno = 0, calls = [], kern = ()\<rparr> @ [SysFork], kern := snd (os_fork (scripted_spawn (ForkParent 4242) (Succeeded ()) (Succeeded ())) (kern \<lparr>errno = 0, calls = [], kern = ()\<rparr>))\<rparr>"
    by blast
  with r have a: "asmcovtrace_open (scripted_spawn (ForkParent 4242) (Succeeded ()) (Succeeded ())) ''/bin/true'' [''true''] \<lparr>errno = 0, calls = [], kern = ()\<rparr> =
       (Return 4242, \<lparr>errno = 0, calls = [SysFork], kern = ()\<rparr>)"
    by (simp add: prod_eq_iff scripted_spawn_def)
  have q: "fork_contract (fst (os_fork (scripted_spawn (ForkFailed EAGAIN) (Succeeded ()) (Succeeded ())) (kern \<lparr>errno = 0, calls = [], kern = ()\<rparr>)))"
    "fst (os_fork (scripted_spawn (ForkFailed EAGAIN) (Succeeded ()) (Succeeded ())) (kern \<lparr>errno = 0, calls = [], kern = ()\<rparr>)) = ForkFailed EAGAIN"
    by (simp_all add: scripted_spawn_def fork_contract_def)
  from open_returns_only_in_parent [OF q(1), of "''/bin/true''" "[''true'']"] q(2)
  have "fst (asmcovtrace_open (scripted_spawn (ForkFailed EAGAIN) (Succeeded ()) (Succeeded ())) ''/bin/true'' [''true''] \<lparr>errno = 0, calls = [], kern = ()\<rparr>) =
       Exits 1 \<lparr>d_fmt = ''fork'', d_args = [], d_errno = EAGAIN\<rparr>"
    by blast
  then have b: "fst (asmcovtrace_open (scripted_spawn (ForkFailed EAGAIN) (Succeeded ()) (Succeeded ())) ''/bin/true'' [''true''] \<lparr>errno = 0, calls = [], kern = ()\<rparr>) =
       Exits 1 \<lparr>d_fmt = ''fork'', d_args = [], d_errno = 11\<rparr>"
    by (simp add: EAGAIN_def)
  have c: "fork_contract (fst (os_fork (scripted_spawn ForkChild (Succeeded ()) (Succeeded ())) (kern \<lparr>errno = 0, calls = [], kern = ()\<rparr>)))"
    "fst (os_fork (scripted_spawn ForkChild (Succeeded ()) (Succeeded ())) (kern \<lparr>errno = 0, calls = [], kern = ()\<rparr>)) = ForkChild"
    by (simp_all add: scripted_spawn_def fork_contract_def)
  from open_returns_only_in_parent [OF c(1), of "''/bin/true''" "[''true'']"] c(2)
  have "(\<exists>d. fst (asmcovtrace_open (scripted_spawn ForkChild (Succeeded ()) (Succeeded ())) ''/bin/true'' [''true''] \<lparr>errno = 0, calls = [], kern = ()\<rparr>) = Exits 1 d)
      \<or> fst (asmcovtrace_open (scripted_spawn ForkChild (Succeeded ()) (Succeeded ())) ''/bin/true'' [''true''] \<lparr>errno = 0, calls = [], kern = ()\<rparr>) = Replaced ''/bin/true'' [''true'']"
    by blast
  moreover have "\<not> (\<exists>d. fst (asmcovtrace_open (scripted_spawn ForkChild (Succeeded ()) (Succeeded ())) ''/bin/true'' [''true''] \<lparr>errno = 0, calls = [], kern = ()\<rparr>) = Exits 1 d)"
    by (simp add: open_defs scripted_spawn_def)
  ultimately have d: "fst (asmcovtrace_open (scripted_spawn ForkChild (Succeeded ()) (Succeeded ())) ''/bin/true'' [''true''] \<lparr>errno = 0, calls = [], kern = ()\<rparr>) =
       Replaced ''/bin/true'' [''true'']"
    by blast
  show ?thesis
    using p a q b c d by simp
qed

end
